theory Spec2Isabelle
  imports Main "HOL-Library.Product_Lexorder"
begin

section \<open>Schema of the storage layer\<close>

text \<open>
  The four tables of the migration. A \<^verbatim>\<open>uuid\<close> is its text. A \<^verbatim>\<open>date\<close> column is the
  number of the calendar day (days since 1970-01-01, the day that \<^verbatim>\<open>yyyy-MM-dd\<close> names),
  a \<^verbatim>\<open>time\<close> column the whole seconds since midnight (what \<^verbatim>\<open>HH:MM:SS\<close> names; fractions of
  a second are outside the model, the application writes whole minutes only), and a
  \<^verbatim>\<open>timestamptz\<close> or a JavaScript \<^verbatim>\<open>Date\<close> the wall-clock milliseconds since
  1970-01-01T00:00 (daylight-saving shifts are not modelled). Columns that no modelled
  operation reads (bio, fee, licence, education, phone, avatar) are left out.
\<close>

type_synonym uuid = string
type_synonym pg_date = int
type_synonym pg_time = nat
type_synonym instant = int

datatype role = Patient | Doctor | Admin

datatype status = Pending | Confirmed | Cancelled | Completed

record profiles_row =
  pr_id :: uuid
  email :: string
  full_name :: string
  role :: role

record doctors_row =
  dr_id :: uuid
  user_id :: uuid
  specialization :: string
  experience_years :: int
  is_available :: bool
  is_verified :: bool

record doctor_schedules_row =
  sc_id :: uuid
  sc_doctor_id :: uuid
  day_of_week :: nat
  start_time :: pg_time
  end_time :: pg_time
  sc_is_available :: bool

record appointments_row =
  apt_id :: uuid
  patient_id :: uuid
  doctor_id :: uuid
  appointment_date :: pg_date
  appointment_time :: pg_time
  status :: status
  apt_notes :: "string option"
  patient_notes :: "string option"
  doctor_notes :: "string option"
  created_at :: instant
  updated_at :: instant

record database =
  profiles :: "profiles_row list"
  doctors :: "doctors_row list"
  doctor_schedules :: "doctor_schedules_row list"
  appointments :: "appointments_row list"

text \<open>
  A request to the storage layer answers \<^verbatim>\<open>{ data, error }\<close>. The first argument of every
  request below is the failure, if any, that keeps the request from reaching the tables
  (transport down, service error); the tables are then neither read nor written.
\<close>

datatype error =
    TransportFailure
  | NoSingleRow
  | PolicyViolation
  | PrimaryKeyViolation
  | ForeignKeyViolation
  | UniqueViolation

definition request :: "error option \<Rightarrow> 'a \<Rightarrow> error + 'a" where
  "request fault answer = (case fault of Some e \<Rightarrow> Inl e | None \<Rightarrow> Inr answer)"

subsection \<open>Row-level policies\<close>

text \<open>
  Row level security is enabled on all four tables; the policies of one table and one
  operation are permissive, so a row passes when one of them holds. \<open>uid\<close> is
  \<^verbatim>\<open>auth.uid()\<close>: \<open>None\<close> for a caller who is not signed in.
\<close>

definition is_admin :: "database \<Rightarrow> uuid option \<Rightarrow> bool" where
  "is_admin db uid = (\<exists>p \<in> set (profiles db). Some (pr_id p) = uid \<and> role p = Admin)"

definition owns_doctor :: "database \<Rightarrow> uuid option \<Rightarrow> uuid \<Rightarrow> bool" where
  "owns_doctor db uid did = (\<exists>d \<in> set (doctors db). dr_id d = did \<and> Some (user_id d) = uid)"

definition profiles_select_policy :: "database \<Rightarrow> uuid option \<Rightarrow> profiles_row \<Rightarrow> bool" where
  "profiles_select_policy db uid p =
     (Some (pr_id p) = uid \<or> role p = Doctor \<or> is_admin db uid)"

definition doctors_select_policy :: "database \<Rightarrow> uuid option \<Rightarrow> doctors_row \<Rightarrow> bool" where
  "doctors_select_policy db uid d =
     (is_verified d \<or> Some (user_id d) = uid \<or> is_admin db uid)"

definition schedules_select_policy ::
  "database \<Rightarrow> uuid option \<Rightarrow> doctor_schedules_row \<Rightarrow> bool" where
  "schedules_select_policy db uid s =
     ((\<exists>d \<in> set (doctors db). dr_id d = sc_doctor_id s \<and> is_verified d)
      \<or> owns_doctor db uid (sc_doctor_id s))"

definition appointments_select_policy ::
  "database \<Rightarrow> uuid option \<Rightarrow> appointments_row \<Rightarrow> bool" where
  "appointments_select_policy db uid a =
     (Some (patient_id a) = uid \<or> owns_doctor db uid (doctor_id a) \<or> is_admin db uid)"

definition appointments_insert_policy ::
  "database \<Rightarrow> uuid option \<Rightarrow> appointments_row \<Rightarrow> bool" where
  "appointments_insert_policy db uid a = (Some (patient_id a) = uid \<or> is_admin db uid)"

definition appointments_update_policy ::
  "database \<Rightarrow> uuid option \<Rightarrow> appointments_row \<Rightarrow> bool" where
  "appointments_update_policy db uid a =
     (Some (patient_id a) = uid \<or> owns_doctor db uid (doctor_id a) \<or> is_admin db uid)"

section \<open>Slot generator (BookAppointment)\<close>

record TimeSlot =
  time :: nat
  available :: bool

text \<open>
  \<open>time\<close> of a slot is the text \<^verbatim>\<open>HH:mm\<close>, held as the minute of the day it names
  (\<open>60 * HH + mm\<close>); \<^verbatim>\<open>timeStr + ':00'\<close> is then the \<^verbatim>\<open>time\<close> value \<open>60 * timeStr\<close>.
\<close>

definition getDay :: "pg_date \<Rightarrow> nat" where
  "getDay d = nat ((d + 4) mod 7)"

definition isSameDay :: "pg_date \<Rightarrow> instant \<Rightarrow> bool" where
  "isSameDay d now = (d = now div 86400000)"

definition parseISO_date_time :: "pg_date \<Rightarrow> nat \<Rightarrow> instant" where
  "parseISO_date_time dateStr timeStr = dateStr * 86400000 + int timeStr * 60000"

text \<open>
  \<^verbatim>\<open>parseISO(`2000-01-01T${t}`)\<close> of a \<^verbatim>\<open>time\<close> column, as milliseconds after
  2000-01-01T00:00, and \<^verbatim>\<open>format(d, 'HH:mm')\<close> of such a \<^verbatim>\<open>Date\<close>.
\<close>

definition parseISO_time :: "pg_time \<Rightarrow> nat" where
  "parseISO_time t = 1000 * t"

definition format_HHmm :: "nat \<Rightarrow> nat" where
  "format_HHmm ms = 60 * ((ms div 3600000) mod 24) + (ms div 60000) mod 60"

definition select_schedules ::
  "error option \<Rightarrow> database \<Rightarrow> uuid option \<Rightarrow> uuid \<Rightarrow> nat
     \<Rightarrow> error + doctor_schedules_row list" where
  "select_schedules fault db uid did dayOfWeek =
     request fault
       (filter (\<lambda>s. schedules_select_policy db uid s \<and> sc_doctor_id s = did
                    \<and> day_of_week s = dayOfWeek \<and> sc_is_available s)
          (doctor_schedules db))"

definition select_booked ::
  "error option \<Rightarrow> database \<Rightarrow> uuid option \<Rightarrow> uuid \<Rightarrow> pg_date
     \<Rightarrow> error + appointments_row list" where
  "select_booked fault db uid did dateStr =
     request fault
       (filter (\<lambda>a. appointments_select_policy db uid a \<and> doctor_id a = did
                    \<and> appointment_date a = dateStr
                    \<and> (status a = Pending \<or> status a = Confirmed))
          (appointments db))"

function while_slots ::
  "pg_time list \<Rightarrow> pg_date \<Rightarrow> instant \<Rightarrow> TimeSlot list \<Rightarrow> nat \<Rightarrow> nat \<Rightarrow> TimeSlot list" where
  "while_slots bookedTimes selectedDate now slots currentTime endTime =
     (if currentTime < endTime then
        (let timeStr = format_HHmm currentTime;
             isBooked = (60 * timeStr \<in> set bookedTimes);
             isPast = (isSameDay selectedDate now
                       \<and> now > parseISO_date_time selectedDate timeStr)
         in while_slots bookedTimes selectedDate now
              (slots @ [\<lparr>time = timeStr, available = (\<not> isBooked \<and> \<not> isPast)\<rparr>])
              (currentTime + 30 * 60000) endTime)
      else slots)"
  by pat_completeness auto
termination
  by (relation "measure (\<lambda>(b, d, n, s, c, e). e - c)") auto

declare while_slots.simps [simp del]

definition forEach_schedule ::
  "pg_time list \<Rightarrow> pg_date \<Rightarrow> instant \<Rightarrow> TimeSlot list \<Rightarrow> doctor_schedules_row
     \<Rightarrow> TimeSlot list" where
  "forEach_schedule bookedTimes selectedDate now slots schedule =
     while_slots bookedTimes selectedDate now slots
       (parseISO_time (start_time schedule)) (parseISO_time (end_time schedule))"

definition generateTimeSlots_try ::
  "error option \<Rightarrow> error option \<Rightarrow> database \<Rightarrow> uuid option \<Rightarrow> instant \<Rightarrow> uuid \<Rightarrow> pg_date
     \<Rightarrow> error + TimeSlot list" where
  "generateTimeSlots_try fault1 fault2 db uid now did selectedDate =
     (let dayOfWeek = getDay selectedDate; dateStr = selectedDate in
      case select_schedules fault1 db uid did dayOfWeek of
        Inl scheduleError \<Rightarrow> Inl scheduleError
      | Inr schedules \<Rightarrow>
          (case select_booked fault2 db uid did dateStr of
             Inl appointmentError \<Rightarrow> Inl appointmentError
           | Inr appts \<Rightarrow>
               (let bookedTimes = map appointment_time appts in
                Inr (foldl (forEach_schedule bookedTimes selectedDate now) [] schedules))))"

text \<open>
  The whole handler: the new \<open>timeSlots\<close> state and the error written to the console,
  if any. Without a loaded doctor it returns at once and leaves the state alone.
\<close>

definition generateTimeSlots ::
  "error option \<Rightarrow> error option \<Rightarrow> database \<Rightarrow> uuid option \<Rightarrow> instant
     \<Rightarrow> doctors_row option \<Rightarrow> pg_date \<Rightarrow> TimeSlot list \<Rightarrow> TimeSlot list \<times> error option" where
  "generateTimeSlots fault1 fault2 db uid now doctor selectedDate timeSlots =
     (case doctor of
        None \<Rightarrow> (timeSlots, None)
      | Some d \<Rightarrow>
          (case generateTimeSlots_try fault1 fault2 db uid now (dr_id d) selectedDate of
             Inl e \<Rightarrow> ([], Some e)
           | Inr slots \<Rightarrow> (slots, None)))"


text \<open>
  What the claims about the walk are stated against: the instants (milliseconds after
  2000-01-01T00:00) \<open>start\<close>, \<open>start + 30 min\<close>, \<open>start + 60 min\<close>, ... that lie strictly
  before \<open>end\<close>, and the slot the loop body builds at one instant.
\<close>

definition slot_count :: "nat \<Rightarrow> nat \<Rightarrow> nat" where
  "slot_count c e = (e - c + 1799999) div 1800000"

definition spec_entry_times :: "doctor_schedules_row \<Rightarrow> nat list" where
  "spec_entry_times schedule =
     map (\<lambda>k. parseISO_time (start_time schedule) + 1800000 * k)
       [0..<slot_count (parseISO_time (start_time schedule)) (parseISO_time (end_time schedule))]"

definition slot_at :: "pg_time list \<Rightarrow> pg_date \<Rightarrow> instant \<Rightarrow> nat \<Rightarrow> TimeSlot" where
  "slot_at bookedTimes selectedDate now t =
     \<lparr>time = format_HHmm t,
      available = (\<not> (60 * format_HHmm t \<in> set bookedTimes)
                   \<and> \<not> (isSameDay selectedDate now
                          \<and> now > parseISO_date_time selectedDate (format_HHmm t)))\<rparr>"

section \<open>Doctor directory (DoctorsList)\<close>

definition select_directory ::
  "error option \<Rightarrow> database \<Rightarrow> uuid option \<Rightarrow> error + doctors_row list" where
  "select_directory fault db uid =
     request fault
       (filter (\<lambda>d. doctors_select_policy db uid d \<and> is_verified d \<and> is_available d)
          (doctors db))"

text \<open>The new \<open>doctors\<close> state of the component and the error written to the console.\<close>

definition fetchDoctors ::
  "error option \<Rightarrow> database \<Rightarrow> uuid option \<Rightarrow> doctors_row list
     \<Rightarrow> doctors_row list \<times> error option" where
  "fetchDoctors fault db uid listed =
     (case select_directory fault db uid of
        Inl e \<Rightarrow> (listed, Some e)
      | Inr data \<Rightarrow> (data, None))"

text \<open>
  The rendered list. \<open>matchesSearch\<close> stands for the case-insensitive substring test of
  the search box against name and specialization; an empty \<open>selectedSpecialization\<close>
  selects all.
\<close>

definition filteredDoctors ::
  "(doctors_row \<Rightarrow> bool) \<Rightarrow> string \<Rightarrow> doctors_row list \<Rightarrow> doctors_row list" where
  "filteredDoctors matchesSearch selectedSpecialization listed =
     filter (\<lambda>d. matchesSearch d
                  \<and> (selectedSpecialization = [] \<or> specialization d = selectedSpecialization))
       listed"

section \<open>Booking (BookAppointment)\<close>

datatype feedback = Silent | Alert string | Navigate string string | Message string

text \<open>
  The insert of one row. The storage layer fills \<open>id\<close> (\<open>new_id\<close> is the value
  \<^verbatim>\<open>gen_random_uuid()\<close> draws), the two timestamps and the two absent notes columns, and
  refuses the row when the insert policy, the primary key, a foreign key or
  \<^verbatim>\<open>UNIQUE(doctor_id, appointment_date, appointment_time)\<close> is violated.
\<close>

definition slot_taken :: "appointments_row list \<Rightarrow> uuid \<Rightarrow> pg_date \<Rightarrow> pg_time \<Rightarrow> bool" where
  "slot_taken rows did adate atime =
     (\<exists>a \<in> set rows. doctor_id a = did \<and> appointment_date a = adate
                      \<and> appointment_time a = atime)"

definition insert_appointment ::
  "error option \<Rightarrow> uuid \<Rightarrow> instant \<Rightarrow> database \<Rightarrow> uuid option
     \<Rightarrow> uuid \<Rightarrow> uuid \<Rightarrow> pg_date \<Rightarrow> pg_time \<Rightarrow> string option \<Rightarrow> status
     \<Rightarrow> error + database" where
  "insert_appointment fault new_id now db uid pid did adate atime pnotes st =
     (case fault of
        Some e \<Rightarrow> Inl e
      | None \<Rightarrow>
          (let r = \<lparr>apt_id = new_id, patient_id = pid, doctor_id = did,
                    appointment_date = adate, appointment_time = atime, status = st,
                    apt_notes = None, patient_notes = pnotes, doctor_notes = None,
                    created_at = now, updated_at = now\<rparr>
           in if \<not> appointments_insert_policy db uid r then Inl PolicyViolation
              else if new_id \<in> set (map apt_id (appointments db)) then Inl PrimaryKeyViolation
              else if pid \<notin> set (map pr_id (profiles db)) \<or> did \<notin> set (map dr_id (doctors db))
                then Inl ForeignKeyViolation
              else if slot_taken (appointments db) did adate atime then Inl UniqueViolation
              else Inr (db\<lparr>appointments := appointments db @ [r]\<rparr>)))"

definition booked_message :: string where
  "booked_message = ''Appointment booked successfully! The doctor will confirm shortly.''"

definition booking_failed_message :: string where
  "booking_failed_message = ''Failed to book appointment. Please try again.''"

text \<open>
  \<open>doctor\<close>, \<open>selectedTime\<close> (\<open>None\<close> for the empty text) and \<open>user\<close> are the component's
  state; the result is the tables afterwards and what the caller is shown.
\<close>

definition handleBookAppointment ::
  "error option \<Rightarrow> uuid \<Rightarrow> instant \<Rightarrow> database \<Rightarrow> doctors_row option \<Rightarrow> nat option
     \<Rightarrow> uuid option \<Rightarrow> pg_date \<Rightarrow> string \<Rightarrow> database \<times> feedback" where
  "handleBookAppointment fault new_id now db doctor selectedTime user selectedDate notes_text =
     (case (doctor, selectedTime, user) of
        (Some d, Some t, Some u) \<Rightarrow>
          (case insert_appointment fault new_id now db (Some u)
                  u (dr_id d) selectedDate (60 * t) (Some notes_text) Pending of
             Inl e \<Rightarrow> (db, Alert booking_failed_message)
           | Inr db' \<Rightarrow> (db', Navigate ''/appointments'' booked_message))
      | _ \<Rightarrow> (db, Silent))"

section \<open>Status updates\<close>

text \<open>
  \<^verbatim>\<open>update({ status }).eq('id', appointmentId)\<close>: every row with that id which the caller may
  read and update gets the new status, and the trigger stamps \<open>updated_at\<close>. A row the
  policies hide is skipped without an error.
\<close>

definition upd_row ::
  "database \<Rightarrow> uuid option \<Rightarrow> uuid \<Rightarrow> status \<Rightarrow> instant \<Rightarrow> appointments_row
     \<Rightarrow> appointments_row" where
  "upd_row db uid appointmentId st now a =
     (if apt_id a = appointmentId \<and> appointments_select_policy db uid a
         \<and> appointments_update_policy db uid a
      then a\<lparr>status := st, updated_at := now\<rparr> else a)"

definition update_status ::
  "error option \<Rightarrow> instant \<Rightarrow> database \<Rightarrow> uuid option \<Rightarrow> uuid \<Rightarrow> status \<Rightarrow> error + database" where
  "update_status fault now db uid appointmentId st =
     request fault
       (db\<lparr>appointments := map (upd_row db uid appointmentId st now) (appointments db)\<rparr>)"

definition isPast :: "instant \<Rightarrow> instant \<Rightarrow> bool" where
  "isPast d now = (d < now)"

definition appointmentDateTime :: "appointments_row \<Rightarrow> instant" where
  "appointmentDateTime a = appointment_date a * 86400000 + int (appointment_time a) * 1000"

subsection \<open>Embedded rows\<close>

text \<open>
  Both lists select their appointments together with a row of another table: the
  dashboard \<^verbatim>\<open>profiles (full_name, phone, email)\<close> of the patient, the patient's list
  \<^verbatim>\<open>doctors (..., profiles (full_name, phone))\<close>. The embedded row is read under the
  caller's select policy of its table and is \<^verbatim>\<open>null\<close> (\<open>None\<close>) when the policy hides it.
  An item of a list is the appointment row with what was embedded.
\<close>

type_synonym doctor_embed = "(doctors_row \<times> profiles_row option) option"
type_synonym patient_item = "appointments_row \<times> doctor_embed"
type_synonym doctor_item = "appointments_row \<times> profiles_row option"

definition embed_profiles :: "database \<Rightarrow> uuid option \<Rightarrow> uuid \<Rightarrow> profiles_row option" where
  "embed_profiles db uid pid =
     find (\<lambda>p. pr_id p = pid \<and> profiles_select_policy db uid p) (profiles db)"

definition embed_doctors :: "database \<Rightarrow> uuid option \<Rightarrow> uuid \<Rightarrow> doctor_embed" where
  "embed_doctors db uid did =
     map_option (\<lambda>d. (d, embed_profiles db uid (user_id d)))
       (find (\<lambda>d. dr_id d = did \<and> doctors_select_policy db uid d) (doctors db))"

subsection \<open>Patient's list (PatientAppointments)\<close>

datatype tab = All | Upcoming | Past

definition select_patient_appointments ::
  "error option \<Rightarrow> database \<Rightarrow> uuid option \<Rightarrow> uuid \<Rightarrow> error + patient_item list" where
  "select_patient_appointments fault db uid user =
     request fault
       (map (\<lambda>a. (a, embed_doctors db uid (doctor_id a)))
          (sort_key (\<lambda>a. (appointment_date a, appointment_time a))
             (filter (\<lambda>a. appointments_select_policy db uid a \<and> patient_id a = user)
                (appointments db))))"

definition fetchAppointments ::
  "error option \<Rightarrow> database \<Rightarrow> uuid option \<Rightarrow> patient_item list \<Rightarrow> patient_item list" where
  "fetchAppointments fault db user shown =
     (case user of
        None \<Rightarrow> shown
      | Some u \<Rightarrow>
          (case select_patient_appointments fault db (Some u) u of
             Inl e \<Rightarrow> shown
           | Inr data \<Rightarrow> data))"

definition filteredAppointments ::
  "tab \<Rightarrow> instant \<Rightarrow> patient_item list \<Rightarrow> patient_item list" where
  "filteredAppointments flt now shown =
     filter (\<lambda>item. let apt = fst item;
                      isAppointmentPast = isPast (appointmentDateTime apt) now in
               (case flt of
                  Upcoming \<Rightarrow> \<not> isAppointmentPast \<and> status apt \<noteq> Cancelled
                               \<and> status apt \<noteq> Completed
                | Past \<Rightarrow> isAppointmentPast \<or> status apt = Completed \<or> status apt = Cancelled
                | All \<Rightarrow> True))
       shown"

text \<open>
  A card reads \<^verbatim>\<open>appointment.doctors.profiles.full_name\<close> without a test for
  \<^verbatim>\<open>null\<close>: with an embedded row missing, rendering the card throws and the list is
  not rendered at all.
\<close>

definition patient_card_renders :: "patient_item \<Rightarrow> bool" where
  "patient_card_renders item = (case snd item of Some (d, Some p) \<Rightarrow> True | _ \<Rightarrow> False)"

text \<open>
  The Cancel button of the card of appointment \<open>appointmentId\<close> is on the page rendered
  at the instant \<open>rendered\<close>: every card of the filtered list renders, and this card is
  pending and not past at that instant.
\<close>

definition cancel_offered ::
  "tab \<Rightarrow> instant \<Rightarrow> patient_item list \<Rightarrow> uuid \<Rightarrow> bool" where
  "cancel_offered flt rendered shown appointmentId =
     ((\<forall>item \<in> set (filteredAppointments flt rendered shown). patient_card_renders item)
      \<and> (\<exists>item \<in> set (filteredAppointments flt rendered shown).
            apt_id (fst item) = appointmentId
            \<and> status (fst item) = Pending
            \<and> \<not> isPast (appointmentDateTime (fst item)) rendered))"

text \<open>\<open>answer\<close> is what the user answers to the \<^verbatim>\<open>confirm\<close> dialog.\<close>

definition cancelAppointment ::
  "error option \<Rightarrow> error option \<Rightarrow> instant \<Rightarrow> database \<Rightarrow> uuid option \<Rightarrow> bool \<Rightarrow> uuid
     \<Rightarrow> patient_item list \<Rightarrow> database \<times> patient_item list \<times> feedback" where
  "cancelAppointment fault1 fault2 now db user answer appointmentId shown =
     (if \<not> answer then (db, shown, Silent)
      else case update_status fault1 now db user appointmentId Cancelled of
             Inl e \<Rightarrow> (db, shown, Alert ''Failed to cancel appointment'')
           | Inr db' \<Rightarrow>
               (db', fetchAppointments fault2 db' user shown,
                Message ''Appointment cancelled successfully''))"

subsection \<open>Doctor's dashboard (DoctorDashboard)\<close>

definition single :: "'a list \<Rightarrow> error + 'a" where
  "single rows = (case rows of [x] \<Rightarrow> Inr x | _ \<Rightarrow> Inl NoSingleRow)"

definition select_own_doctor ::
  "error option \<Rightarrow> database \<Rightarrow> uuid option \<Rightarrow> uuid \<Rightarrow> error + doctors_row" where
  "select_own_doctor fault db uid user =
     (case request fault
             (filter (\<lambda>d. doctors_select_policy db uid d \<and> user_id d = user) (doctors db)) of
        Inl e \<Rightarrow> Inl e
      | Inr rows \<Rightarrow> single rows)"

definition select_upcoming ::
  "error option \<Rightarrow> database \<Rightarrow> uuid option \<Rightarrow> uuid \<Rightarrow> pg_date \<Rightarrow> error + doctor_item list" where
  "select_upcoming fault db uid did today =
     request fault
       (map (\<lambda>a. (a, embed_profiles db uid (patient_id a)))
          (take 10
             (sort_key (\<lambda>a. (appointment_date a, appointment_time a))
                (filter (\<lambda>a. appointments_select_policy db uid a \<and> doctor_id a = did
                             \<and> appointment_date a \<ge> today)
                   (appointments db)))))"

definition select_all_of_doctor ::
  "error option \<Rightarrow> database \<Rightarrow> uuid option \<Rightarrow> uuid \<Rightarrow> error + appointments_row list" where
  "select_all_of_doctor fault db uid did =
     request fault
       (filter (\<lambda>a. appointments_select_policy db uid a \<and> doctor_id a = did) (appointments db))"

text \<open>The new \<open>appointments\<close> state of the dashboard (the statistics are not modelled).\<close>

definition fetchDashboardData ::
  "error option \<Rightarrow> error option \<Rightarrow> error option \<Rightarrow> instant \<Rightarrow> database \<Rightarrow> uuid option
     \<Rightarrow> doctor_item list \<Rightarrow> doctor_item list" where
  "fetchDashboardData fault1 fault2 fault3 now db user shown =
     (case user of
        None \<Rightarrow> shown
      | Some u \<Rightarrow>
          (case select_own_doctor fault1 db (Some u) u of
             Inl doctorError \<Rightarrow> shown
           | Inr doctorData \<Rightarrow>
               (case select_upcoming fault2 db (Some u) (dr_id doctorData) (now div 86400000) of
                  Inl appointmentsError \<Rightarrow> shown
                | Inr appointmentsData \<Rightarrow>
                    (case select_all_of_doctor fault3 db (Some u) (dr_id doctorData) of
                       Inl statsError \<Rightarrow> shown
                     | Inr allAppointments \<Rightarrow> appointmentsData))))"

definition updateAppointmentStatus ::
  "error option \<Rightarrow> error option \<Rightarrow> error option \<Rightarrow> error option \<Rightarrow> instant \<Rightarrow> database
     \<Rightarrow> uuid option \<Rightarrow> uuid \<Rightarrow> status \<Rightarrow> doctor_item list
     \<Rightarrow> database \<times> doctor_item list \<times> feedback" where
  "updateAppointmentStatus fault0 fault1 fault2 fault3 now db user appointmentId st shown =
     (case update_status fault0 now db user appointmentId st of
        Inl e \<Rightarrow> (db, shown, Alert ''Failed to update appointment'')
      | Inr db' \<Rightarrow> (db', fetchDashboardData fault1 fault2 fault3 now db' user shown, Silent))"

datatype button = Confirm | Cancel | MarkComplete

fun button_status :: "button \<Rightarrow> status" where
  "button_status Confirm = Confirmed"
| "button_status Cancel = Cancelled"
| "button_status MarkComplete = Completed"

text \<open>
  A card of the dashboard reads \<^verbatim>\<open>appointment.profiles.full_name\<close> without a test for
  \<^verbatim>\<open>null\<close>: when the patient's profile of one shown appointment was hidden from the
  doctor, rendering throws and no card, hence no button, is rendered.
\<close>

definition dashboard_card_renders :: "doctor_item \<Rightarrow> bool" where
  "dashboard_card_renders item = (snd item \<noteq> None)"

text \<open>The button is rendered on the card of appointment \<open>appointmentId\<close>.\<close>

definition button_offered :: "doctor_item list \<Rightarrow> uuid \<Rightarrow> button \<Rightarrow> bool" where
  "button_offered shown appointmentId b =
     ((\<forall>item \<in> set shown. dashboard_card_renders item)
      \<and> (\<exists>item \<in> set shown.
            apt_id (fst item) = appointmentId
            \<and> (case b of
                  Confirm \<Rightarrow> status (fst item) = Pending
                | Cancel \<Rightarrow> status (fst item) = Pending
                | MarkComplete \<Rightarrow> status (fst item) = Confirmed)))"

section \<open>The application as a transition system\<close>

text \<open>
  The tables, and for every signed-in user what the patient list and the doctor
  dashboard hold in their \<open>appointments\<close> state: the items of the last successful fetch,
  not the rows of the tables. A button is on the page as it was rendered, from that
  state, at an instant \<open>rendered\<close>, and is pressed at a later instant \<open>now\<close>; the handler
  tests nothing again, and the update it sends names the appointment by id only. A page
  is rendered anew at every change of state, so \<open>rendered\<close> may be any instant up to the
  press.
  \<open>Book\<close> is a submitted booking form with any doctor, date and time (the form itself
  offers only the generated slots), the two \<open>Load\<close> events are the fetch on opening a
  screen. The route guard by role and the other tables' own screens are not modelled.
\<close>

record system =
  store :: database
  patient_screen :: "uuid \<Rightarrow> patient_item list"
  doctor_screen :: "uuid \<Rightarrow> doctor_item list"

datatype event =
    Book uuid doctors_row pg_date nat string uuid "error option" instant
  | PatientLoad uuid "error option"
  | PatientCancel uuid tab uuid bool "error option" "error option" instant instant
  | DoctorLoad uuid "error option" "error option" "error option" instant
  | DoctorPress uuid uuid button "error option" "error option" "error option" "error option"
      instant instant

fun step :: "event \<Rightarrow> system \<Rightarrow> system" where
  "step (Book user d selectedDate selectedTime notes_text new_id fault now) s =
     s\<lparr>store := fst (handleBookAppointment fault new_id now (store s)
                       (Some d) (Some selectedTime) (Some user) selectedDate notes_text)\<rparr>"
| "step (PatientLoad user fault) s =
     s\<lparr>patient_screen := (patient_screen s)
          (user := fetchAppointments fault (store s) (Some user) (patient_screen s user))\<rparr>"
| "step (PatientCancel user flt appointmentId answer fault1 fault2 rendered now) s =
     (if rendered \<le> now \<and> cancel_offered flt rendered (patient_screen s user) appointmentId then
        (case cancelAppointment fault1 fault2 now (store s) (Some user) answer appointmentId
                (patient_screen s user) of
           (db', shown', fb) \<Rightarrow>
             s\<lparr>store := db', patient_screen := (patient_screen s)(user := shown')\<rparr>)
      else s)"
| "step (DoctorLoad user fault1 fault2 fault3 now) s =
     s\<lparr>doctor_screen := (doctor_screen s)
          (user := fetchDashboardData fault1 fault2 fault3 now (store s) (Some user)
                     (doctor_screen s user))\<rparr>"
| "step (DoctorPress user appointmentId b fault0 fault1 fault2 fault3 rendered now) s =
     (if rendered \<le> now \<and> button_offered (doctor_screen s user) appointmentId b then
        (case updateAppointmentStatus fault0 fault1 fault2 fault3 now (store s) (Some user)
                appointmentId (button_status b) (doctor_screen s user) of
           (db', shown', fb) \<Rightarrow>
             s\<lparr>store := db', doctor_screen := (doctor_screen s)(user := shown')\<rparr>)
      else s)"

definition run :: "event list \<Rightarrow> system \<Rightarrow> system" where
  "run es s = foldl (\<lambda>s e. step e s) s es"

definition initial :: "database \<Rightarrow> system" where
  "initial db = \<lparr>store = db, patient_screen = (\<lambda>u. []), doctor_screen = (\<lambda>u. [])\<rparr>"

definition unique_slots :: "appointments_row list \<Rightarrow> bool" where
  "unique_slots rows =
     distinct (map (\<lambda>a. (doctor_id a, appointment_date a, appointment_time a)) rows)"

section \<open>Predicates the claims are stated with\<close>

text \<open>
  \<open>status_frame\<close>: between two states of the tables nothing differs but, on rows with the
  given id, the status and the \<open>updated_at\<close> stamp.
\<close>

definition status_frame :: "uuid \<Rightarrow> status \<Rightarrow> instant \<Rightarrow> database \<Rightarrow> database \<Rightarrow> bool" where
  "status_frame appointmentId st now db db' =
     (profiles db' = profiles db \<and> doctors db' = doctors db
      \<and> doctor_schedules db' = doctor_schedules db
      \<and> list_all2
           (\<lambda>a a'. apt_id a' = apt_id a \<and> patient_id a' = patient_id a
                    \<and> doctor_id a' = doctor_id a
                    \<and> appointment_date a' = appointment_date a
                    \<and> appointment_time a' = appointment_time a
                    \<and> apt_notes a' = apt_notes a \<and> patient_notes a' = patient_notes a
                    \<and> doctor_notes a' = doctor_notes a \<and> created_at a' = created_at a
                    \<and> (a' = a \<or> apt_id a = appointmentId \<and> status a' = st
                                  \<and> updated_at a' = now))
           (appointments db) (appointments db'))"

text \<open>
  \<open>screen_current\<close>: the appointment rows a screen shows agree in status with the stored
  rows of the same id. \<open>acting_screen\<close>: the appointment rows of the list from which the
  button of an event is rendered. \<open>screens_faithful\<close>: ids are unique in the table, and
  every row on a patient's list is a copy of a stored row as far as id, date and time go.
\<close>

definition screen_current :: "appointments_row list \<Rightarrow> database \<Rightarrow> bool" where
  "screen_current shown db =
     (\<forall>v \<in> set shown. \<forall>a \<in> set (appointments db). apt_id a = apt_id v \<longrightarrow> status v = status a)"

fun acting_screen :: "event \<Rightarrow> system \<Rightarrow> appointments_row list" where
  "acting_screen (PatientCancel user flt appointmentId answer fault1 fault2 rendered now) s =
     map fst (patient_screen s user)"
| "acting_screen (DoctorPress user appointmentId b fault0 fault1 fault2 fault3 rendered now) s =
     map fst (doctor_screen s user)"
| "acting_screen (Book user d selectedDate selectedTime notes_text new_id fault now) s = []"
| "acting_screen (PatientLoad user fault) s = []"
| "acting_screen (DoctorLoad user fault1 fault2 fault3 now) s = []"

definition screens_faithful :: "system \<Rightarrow> bool" where
  "screens_faithful s =
     (distinct (map apt_id (appointments (store s)))
      \<and> (\<forall>u. \<forall>v \<in> set (map fst (patient_screen s u)). \<exists>a \<in> set (appointments (store s)).
             apt_id a = apt_id v \<and> appointment_date a = appointment_date v
             \<and> appointment_time a = appointment_time v))"

section \<open>Example data\<close>

text \<open>
  One verified doctor \<open>d1\<close> with Monday entries, two patients, and a clock standing at
  noon of 2026-11-02 (day 20759); day 20766 is the Monday after, day 20767 the Tuesday.
  \<open>ex_booked\<close>: patient \<open>p1\<close> has booked 09:30 of that Monday. \<open>ex_listed\<close>: \<open>p1\<close> has then
  opened the list. \<open>ex_late\<close> is one millisecond after the appointment's 09:30.
  \<open>ex_clinic\<close>: the doctor has two pending appointments, 09:00 and 09:30 of that Monday,
  with a patient whose profile has role doctor (the profiles policies let the owner of a
  profile update it), so that the doctor may read it and the dashboard renders its
  cards. \<open>ex_current\<close>: the doctor has opened the dashboard and
  cancelled the first. \<open>ex_stale\<close>: the same, but the fetch after the update failed and
  the dashboard still shows the first as pending.
\<close>

definition ex_doctor :: doctors_row where
  "ex_doctor = \<lparr>dr_id = ''d1'', user_id = ''u-doc'', specialization = ''Cardiology'',
                experience_years = 10, is_available = True, is_verified = True\<rparr>"

definition ex_profiles :: "profiles_row list" where
  "ex_profiles =
     [\<lparr>pr_id = ''p1'', email = ''p1@example.org'', full_name = ''Pat One'', role = Patient\<rparr>,
      \<lparr>pr_id = ''p2'', email = ''p2@example.org'', full_name = ''Pat Two'', role = Patient\<rparr>,
      \<lparr>pr_id = ''u-doc'', email = ''doc@example.org'', full_name = ''Doc'', role = Doctor\<rparr>]"

definition ex_morning :: doctor_schedules_row where
  "ex_morning = \<lparr>sc_id = ''s1'', sc_doctor_id = ''d1'', day_of_week = 1,
                 start_time = 32400, end_time = 36000, sc_is_available = True\<rparr>"

definition ex_afternoon :: doctor_schedules_row where
  "ex_afternoon = \<lparr>sc_id = ''s2'', sc_doctor_id = ''d1'', day_of_week = 1,
                   start_time = 50400, end_time = 54000, sc_is_available = True\<rparr>"

definition ex_db :: "doctor_schedules_row list \<Rightarrow> database" where
  "ex_db schedules = \<lparr>profiles = ex_profiles, doctors = [ex_doctor],
                      doctor_schedules = schedules, appointments = []\<rparr>"

definition ex_now :: instant where
  "ex_now = 20759 * 86400000 + 43200000"

definition ex_booked :: system where
  "ex_booked = step (Book ''p1'' ex_doctor 20766 570 ''checkup'' ''a1'' None ex_now)
                 (initial (ex_db [ex_morning]))"

definition ex_directory :: database where
  "ex_directory = \<lparr>profiles = ex_profiles,
     doctors = [ex_doctor,
                ex_doctor\<lparr>dr_id := ''d2'', user_id := ''u2'', is_available := False\<rparr>,
                ex_doctor\<lparr>dr_id := ''d3'', user_id := ''u3'', is_verified := False\<rparr>],
     doctor_schedules = [], appointments = []\<rparr>"

definition ex_listed :: system where
  "ex_listed = step (PatientLoad ''p1'' None) ex_booked"

definition ex_late :: instant where
  "ex_late = 20766 * 86400000 + 34200001"

definition ex_colleague :: profiles_row where
  "ex_colleague = \<lparr>pr_id = ''u-col'', email = ''col@example.org'', full_name = ''Col'',
                    role = Doctor\<rparr>"

definition ex_visit :: "uuid \<Rightarrow> pg_time \<Rightarrow> appointments_row" where
  "ex_visit i t = \<lparr>apt_id = i, patient_id = ''u-col'', doctor_id = ''d1'',
                   appointment_date = 20766, appointment_time = t, status = Pending,
                   apt_notes = None, patient_notes = None, doctor_notes = None,
                   created_at = 0, updated_at = 0\<rparr>"

definition ex_clinic :: database where
  "ex_clinic = \<lparr>profiles = ex_profiles @ [ex_colleague], doctors = [ex_doctor],
                 doctor_schedules = [ex_morning],
                 appointments = [ex_visit ''a1'' 32400, ex_visit ''a2'' 34200]\<rparr>"

definition ex_stale :: system where
  "ex_stale = run [DoctorLoad ''u-doc'' None None None ex_now,
                   DoctorPress ''u-doc'' ''a1'' Cancel None (Some TransportFailure) None None
                     ex_now ex_now]
                (initial ex_clinic)"

definition ex_current :: system where
  "ex_current = run [DoctorLoad ''u-doc'' None None None ex_now,
                     DoctorPress ''u-doc'' ''a1'' Cancel None None None None ex_now ex_now]
                  (initial ex_clinic)"

section \<open>Properties of the slot generator\<close>

lemma slot_count_iff: "k < slot_count c e \<longleftrightarrow> c + 1800000 * k < e"
proof -
  have "k < slot_count c e \<longleftrightarrow> \<not> (e - c + 1799999) div 1800000 < Suc k"
    unfolding slot_count_def by linarith
  also have "\<dots> \<longleftrightarrow> \<not> e - c + 1799999 < Suc k * 1800000"
    by (simp only: div_less_iff_less_mult [of 1800000, simplified])
  also have "\<dots> \<longleftrightarrow> c + 1800000 * k < e"
    by simp linarith
  finally show ?thesis .
qed

lemma slot_count_0: "\<not> c < e \<Longrightarrow> slot_count c e = 0"
  unfolding slot_count_def by simp

lemma slot_count_Suc: "c < e \<Longrightarrow> slot_count c e = Suc (slot_count (c + 1800000) e)"
proof -
  assume "c < e"
  then have "e - c + 1799999 = (e - (c + 1800000) + 1799999) + 1800000 \<or> (e - c + 1799999 < 2 * 1800000 \<and> 1800000 \<le> e - c + 1799999 \<and> e - (c + 1800000) = 0)"
    by linarith
  then show ?thesis
  proof
    assume h: "e - c + 1799999 = (e - (c + 1800000) + 1799999) + 1800000"
    show ?thesis unfolding slot_count_def by (subst h) simp
  next
    assume h: "e - c + 1799999 < 2 * 1800000 \<and> 1800000 \<le> e - c + 1799999 \<and> e - (c + 1800000) = 0"
    then have "(e - c + 1799999) div 1800000 = 1"
      by (intro div_nat_eqI) simp_all
    with h show ?thesis unfolding slot_count_def by simp
  qed
qed

lemma while_slots_eq:
  "while_slots b d n slots c e =
     slots @ map (\<lambda>k. slot_at b d n (c + 1800000 * k)) [0..<slot_count c e]"
proof (induction b d n slots c e rule: while_slots.induct)
  case (1 b d n slots c e)
  show ?case
  proof (cases "c < e")
    case True
    have "[0..<slot_count c e] = 0 # map Suc [0..<slot_count (c + 1800000) e]"
      using True by (simp add: slot_count_Suc upt_conv_Cons map_Suc_upt del: upt_Suc)
    with True 1 show ?thesis
      by (subst while_slots.simps) (simp add: Let_def slot_at_def o_def add.assoc)
  next
    case False
    then show ?thesis
      by (subst while_slots.simps) (simp add: slot_count_0)
  qed
qed


lemma forEach_schedule_eq:
  "forEach_schedule b d n slots schedule = slots @ map (slot_at b d n) (spec_entry_times schedule)"
  by (simp add: forEach_schedule_def while_slots_eq spec_entry_times_def o_def)

lemma foldl_forEach_schedule:
  "foldl (forEach_schedule b d n) slots schedules =
     slots @ concat (map (\<lambda>s. map (slot_at b d n) (spec_entry_times s)) schedules)"
  by (induction schedules arbitrary: slots) (simp_all add: forEach_schedule_eq)

lemma format_HHmm_day: "ms < 86400000 \<Longrightarrow> format_HHmm ms = ms div 60000"
proof -
  assume h: "ms < 86400000"
  have a: "ms div 3600000 = (ms div 60000) div 60"
    by (simp add: div_mult2_eq [symmetric])
  have "ms div 3600000 < 24" using h by (simp add: div_less_iff_less_mult)
  then show ?thesis
    unfolding format_HHmm_def by (simp add: a)
qed

lemma spec_entry_times_set:
  "set (spec_entry_times s) =
     {t. \<exists>k. t = parseISO_time (start_time s) + 1800000 * k \<and> t < parseISO_time (end_time s)}"
  by (auto simp: spec_entry_times_def slot_count_iff)

lemma spec_entry_times_sorted: "sorted_wrt (<) (spec_entry_times s)"
  by (simp add: spec_entry_times_def sorted_wrt_map sorted_wrt_upt)

lemma time_slot_at [simp]: "time (slot_at b d n t) = format_HHmm t"
  by (simp add: slot_at_def)

lemma ex_0900_1000:
  "start_time s = 32400 \<Longrightarrow> end_time s = 36000 \<Longrightarrow> map format_HHmm (spec_entry_times s) = [540, 570]"
proof -
  assume h: "start_time s = 32400" "end_time s = 36000"
  have "slot_count 32400000 36000000 = 2" by (simp add: slot_count_def)
  then show ?thesis
    by (simp add: spec_entry_times_def h parseISO_time_def format_HHmm_def upt_rec numeral_2_eq_2)
qed

lemma generateTimeSlots_times:
  "map time (fst (generateTimeSlots None None db uid now (Some D) selectedDate timeSlots))
     = concat (map (\<lambda>s. map format_HHmm (spec_entry_times s))
         (filter (\<lambda>s. schedules_select_policy db uid s \<and> sc_doctor_id s = dr_id D
                      \<and> day_of_week s = getDay selectedDate \<and> sc_is_available s)
            (doctor_schedules db)))"
  by (simp add: generateTimeSlots_def generateTimeSlots_try_def select_schedules_def
      select_booked_def request_def Let_def foldl_forEach_schedule map_concat o_def)

lemma verified_doctor_schedules:
  assumes "(\<exists>d \<in> set (doctors db). dr_id d = dr_id D \<and> is_verified d)
           \<or> owns_doctor db uid (dr_id D)"
  shows "filter (\<lambda>s. schedules_select_policy db uid s \<and> sc_doctor_id s = dr_id D
                      \<and> day_of_week s = W \<and> sc_is_available s) (doctor_schedules db)
       = filter (\<lambda>s. sc_doctor_id s = dr_id D \<and> day_of_week s = W \<and> sc_is_available s)
           (doctor_schedules db)"
  using assms by (intro filter_cong refl) (auto simp: schedules_select_policy_def)

text \<open>
  Claim C3. For a doctor and date, the slot generator (both requests answered) emits,
  entry by entry over the available schedule entries of that weekday that the query
  returns (all of them when the doctor is verified or is the caller), one slot for each
  of the instants
  \<open>start\<close>, \<open>start + 30 min\<close>, \<open>start + 60 min\<close>, ... that are strictly less than \<open>end\<close>,
  in this order and labelled \<^verbatim>\<open>HH:mm\<close>, and nothing else; an instant equal to \<open>end\<close> gets no
  slot. When the one returned entry is 09:00-10:00, the emitted slot times are exactly
  09:00 and 09:30. The walk over one entry appends exactly that entry's slots.
\<close>

theorem slots_walk_end_exclusive:
  "set (spec_entry_times schedule) =
     {t. \<exists>k. t = parseISO_time (start_time schedule) + 1800000 * k
             \<and> t < parseISO_time (end_time schedule)}
   \<and> sorted_wrt (<) (spec_entry_times schedule)
   \<and> (\<exists>emitted. forEach_schedule bookedTimes selectedDate now slots schedule = slots @ emitted
         \<and> map time emitted = map format_HHmm (spec_entry_times schedule))
   \<and> (start_time schedule = 32400 \<and> end_time schedule = 36000
        \<longrightarrow> map time (forEach_schedule bookedTimes selectedDate now [] schedule) = [540, 570])
   \<and> map time (fst (generateTimeSlots None None db uid now (Some D) selectedDate timeSlots))
       = concat (map (\<lambda>s. map format_HHmm (spec_entry_times s))
           (filter (\<lambda>s. schedules_select_policy db uid s \<and> sc_doctor_id s = dr_id D
                        \<and> day_of_week s = getDay selectedDate \<and> sc_is_available s)
              (doctor_schedules db)))
   \<and> ((\<exists>d \<in> set (doctors db). dr_id d = dr_id D \<and> is_verified d)
        \<or> owns_doctor db uid (dr_id D) \<longrightarrow>
        map time (fst (generateTimeSlots None None db uid now (Some D) selectedDate timeSlots))
          = concat (map (\<lambda>s. map format_HHmm (spec_entry_times s))
              (filter (\<lambda>s. sc_doctor_id s = dr_id D \<and> day_of_week s = getDay selectedDate
                           \<and> sc_is_available s)
                 (doctor_schedules db))))
   \<and> (filter (\<lambda>s. schedules_select_policy db uid s \<and> sc_doctor_id s = dr_id D
                   \<and> day_of_week s = getDay selectedDate \<and> sc_is_available s)
         (doctor_schedules db) = [schedule]
       \<and> start_time schedule = 32400 \<and> end_time schedule = 36000
        \<longrightarrow> map time (fst (generateTimeSlots None None db uid now (Some D) selectedDate
                             timeSlots)) = [540, 570])"
proof (intro conjI)
  show "\<exists>emitted. forEach_schedule bookedTimes selectedDate now slots schedule = slots @ emitted
         \<and> map time emitted = map format_HHmm (spec_entry_times schedule)"
    by (simp add: forEach_schedule_eq o_def)
  show "start_time schedule = 32400 \<and> end_time schedule = 36000
        \<longrightarrow> map time (forEach_schedule bookedTimes selectedDate now [] schedule) = [540, 570]"
    using ex_0900_1000 [of schedule] by (simp add: forEach_schedule_eq o_def)
  show "(\<exists>d \<in> set (doctors db). dr_id d = dr_id D \<and> is_verified d)
        \<or> owns_doctor db uid (dr_id D) \<longrightarrow>
        map time (fst (generateTimeSlots None None db uid now (Some D) selectedDate timeSlots))
          = concat (map (\<lambda>s. map format_HHmm (spec_entry_times s))
              (filter (\<lambda>s. sc_doctor_id s = dr_id D \<and> day_of_week s = getDay selectedDate
                           \<and> sc_is_available s)
                 (doctor_schedules db)))"
    by (simp only: generateTimeSlots_times) (simp add: verified_doctor_schedules)
  show "filter (\<lambda>s. schedules_select_policy db uid s \<and> sc_doctor_id s = dr_id D
                   \<and> day_of_week s = getDay selectedDate \<and> sc_is_available s)
         (doctor_schedules db) = [schedule]
       \<and> start_time schedule = 32400 \<and> end_time schedule = 36000
        \<longrightarrow> map time (fst (generateTimeSlots None None db uid now (Some D) selectedDate
                             timeSlots)) = [540, 570]"
    using ex_0900_1000 [of schedule] by (simp only: generateTimeSlots_times) simp
qed (rule spec_entry_times_set spec_entry_times_sorted generateTimeSlots_times)+

lemma spec_entry_times_bounds:
  "t \<in> set (spec_entry_times s) \<Longrightarrow> 1000 * start_time s \<le> t \<and> t < 1000 * end_time s"
  by (auto simp: spec_entry_times_set parseISO_time_def)

lemma sorted_concat_entry_times:
  "sorted_wrt (\<lambda>a b. end_time a \<le> start_time b) schedules
   \<Longrightarrow> sorted (concat (map spec_entry_times schedules))"
proof (induction schedules)
  case Nil
  then show ?case by simp
next
  case (Cons a schedules)
  have own: "sorted (spec_entry_times a)"
    using spec_entry_times_sorted [of a] by (simp add: strict_sorted_imp_sorted)
  have cross: "x \<le> y" if "x \<in> set (spec_entry_times a)" "b \<in> set schedules"
    "y \<in> set (spec_entry_times b)" for x y b
  proof -
    have "end_time a \<le> start_time b" using Cons.prems that(2) by simp
    then have "1000 * end_time a \<le> 1000 * start_time b" by simp
    with spec_entry_times_bounds [OF that(1)] spec_entry_times_bounds [OF that(3)]
    show ?thesis by linarith
  qed
  from Cons own cross show ?case
    by (auto simp: sorted_append)
qed

lemma map_time_try:
  assumes "select_schedules f1 db uid did (getDay date) = Inr schedules"
      and "generateTimeSlots_try f1 f2 db uid now did date = Inr slots"
  shows "\<exists>b. slots = concat (map (\<lambda>s. forEach_schedule b date now [] s) schedules)
            \<and> slots = concat (map (\<lambda>s. map (slot_at b date now) (spec_entry_times s)) schedules)"
  using assms
  by (auto simp: generateTimeSlots_try_def Let_def foldl_forEach_schedule forEach_schedule_eq
           split: sum.splits)

lemma format_HHmm_entry:
  "end_time s \<le> 86400 \<Longrightarrow>
   map format_HHmm (spec_entry_times s) = map (\<lambda>t. t div 60000) (spec_entry_times s)"
proof (rule map_cong [OF refl])
  fix t assume "end_time s \<le> 86400" "t \<in> set (spec_entry_times s)"
  then have "t < 86400000" using spec_entry_times_bounds [of t s] by linarith
  then show "format_HHmm t = t div 60000" by (rule format_HHmm_day)
qed

lemma entry_strictly_ascending:
  assumes "end_time s \<le> 86400"
  shows "sorted_wrt (<) (map format_HHmm (spec_entry_times s))"
proof -
  have "sorted_wrt (<) (map (\<lambda>k. (parseISO_time (start_time s) + 1800000 * k) div 60000)
          [0..<slot_count (parseISO_time (start_time s)) (parseISO_time (end_time s))])"
  proof (simp add: sorted_wrt_map, rule sorted_wrt_mono_rel [OF _ sorted_wrt_upt])
    fix x y :: nat assume "x < y"
    then have "Suc x \<le> y" by simp
    then have "parseISO_time (start_time s) + 1800000 * Suc x \<le> parseISO_time (start_time s) + 1800000 * y"
      by simp
    then have "(parseISO_time (start_time s) + 1800000 * Suc x) div 60000 \<le> (parseISO_time (start_time s) + 1800000 * y) div 60000"
      by (rule div_le_mono)
    moreover have "(parseISO_time (start_time s) + 1800000 * Suc x) div 60000
        = (parseISO_time (start_time s) + 1800000 * x) div 60000 + 30"
    proof -
      have "parseISO_time (start_time s) + 1800000 * Suc x = (parseISO_time (start_time s) + 1800000 * x) + 30 * 60000"
        by simp
      then show ?thesis by (simp only: div_mult_self1 [of 60000, simplified] div_mult_self3) 
    qed
    ultimately show "(parseISO_time (start_time s) + 1800000 * x) div 60000 < (parseISO_time (start_time s) + 1800000 * y) div 60000"
      by linarith
  qed
  then show ?thesis
    by (simp add: format_HHmm_entry [OF assms]) (simp add: spec_entry_times_def o_def)
qed

text \<open>
  Claim C6, as amended. The output is the runs of the returned schedule entries, one
  after another in the order in which the storage layer returned the entries; nothing is
  sorted or deduplicated. The labels of one entry's run are strictly ascending, and the
  whole output is ascending when every returned entry ends no later than each entry
  returned after it starts. (Entries are \<^verbatim>\<open>time\<close> values, at most 24:00:00.)
\<close>

theorem slots_ascending_when_entries_ordered:
  assumes "select_schedules fault1 db uid did (getDay selectedDate) = Inr schedules"
      and "generateTimeSlots_try fault1 fault2 db uid now did selectedDate = Inr slots"
      and "\<forall>s \<in> set schedules. end_time s \<le> 86400"
  shows "(\<exists>bookedTimes. slots = concat (map (forEach_schedule bookedTimes selectedDate now []) schedules))
       \<and> (\<forall>s \<in> set schedules. \<forall>bookedTimes.
             sorted_wrt (<) (map time (forEach_schedule bookedTimes selectedDate now [] s)))
       \<and> (sorted_wrt (\<lambda>a b. end_time a \<le> start_time b) schedules \<longrightarrow> sorted (map time slots))"
proof (intro conjI ballI allI impI)
  from map_time_try [OF assms(1,2)] obtain b where
    b: "slots = concat (map (\<lambda>s. forEach_schedule b selectedDate now [] s) schedules)"
       "slots = concat (map (\<lambda>s. map (slot_at b selectedDate now) (spec_entry_times s)) schedules)"
    by blast
  from b(1) show "\<exists>bookedTimes. slots = concat (map (forEach_schedule bookedTimes selectedDate now []) schedules)"
    by blast
  assume ord: "sorted_wrt (\<lambda>a b. end_time a \<le> start_time b) schedules"
  have "map time slots = concat (map (\<lambda>s. map format_HHmm (spec_entry_times s)) schedules)"
    by (simp add: b(2) map_concat o_def)
  also have "\<dots> = concat (map (\<lambda>s. map (\<lambda>t. t div 60000) (spec_entry_times s)) schedules)"
    using assms(3) by (intro arg_cong [where f = concat] map_cong refl format_HHmm_entry) simp
  also have "\<dots> = map (\<lambda>t. t div 60000) (concat (map spec_entry_times schedules))"
    by (simp add: map_concat o_def)
  finally have eq: "map time slots = map (\<lambda>t. t div 60000) (concat (map spec_entry_times schedules))" .
  show "sorted (map time slots)"
    unfolding eq
    by (rule sorted_map_mono [OF sorted_concat_entry_times [OF ord]]) (simp add: mono_on_def div_le_mono)
next
  fix s bookedTimes assume "s \<in> set schedules"
  with assms(3) have "end_time s \<le> 86400" by blast
  from entry_strictly_ascending [OF this]
  show "sorted_wrt (<) (map time (forEach_schedule bookedTimes selectedDate now [] s))"
    by (simp add: forEach_schedule_eq o_def)
qed

text \<open>
  Claim C5. When doctor \<open>D\<close> has no available schedule entry for weekday \<open>W\<close>, the
  generator leaves an empty list of slots for every date that falls on \<open>W\<close>; and when
  the two requests themselves succeed, this is the normal path: no error is reported.
\<close>

theorem no_schedule_no_slots:
  assumes "\<forall>s \<in> set (doctor_schedules db).
             \<not> (sc_doctor_id s = dr_id D \<and> day_of_week s = W \<and> sc_is_available s)"
      and "getDay selectedDate = W"
  shows "fst (generateTimeSlots fault1 fault2 db uid now (Some D) selectedDate timeSlots) = []
       \<and> (fault1 = None \<and> fault2 = None \<longrightarrow>
            generateTimeSlots fault1 fault2 db uid now (Some D) selectedDate timeSlots = ([], None))"
proof -
  have "filter (\<lambda>s. schedules_select_policy db uid s \<and> sc_doctor_id s = dr_id D
                    \<and> day_of_week s = W \<and> sc_is_available s) (doctor_schedules db) = []"
    using assms(1) by (auto simp: filter_empty_conv)
  then show ?thesis
    using assms(2)
    by (auto simp: generateTimeSlots_def generateTimeSlots_try_def select_schedules_def
        select_booked_def request_def Let_def split: option.splits sum.splits)
qed

lemmas ex_defs = ex_doctor_def ex_profiles_def ex_morning_def ex_afternoon_def ex_db_def ex_now_def

lemmas generator_defs = generateTimeSlots_def generateTimeSlots_try_def select_schedules_def
  select_booked_def request_def schedules_select_policy_def owns_doctor_def
  appointments_select_policy_def is_admin_def getDay_def forEach_schedule_def
  while_slots.simps Let_def parseISO_time_def format_HHmm_def isSameDay_def
  parseISO_date_time_def

lemma ex_unordered:
  "generateTimeSlots None None (ex_db [ex_afternoon, ex_morning]) (Some ''p2'') ex_now
     (Some ex_doctor) 20766 []
   = ([\<lparr>time = 840, available = True\<rparr>, \<lparr>time = 870, available = True\<rparr>,
       \<lparr>time = 540, available = True\<rparr>, \<lparr>time = 570, available = True\<rparr>], None)"
  by (simp add: ex_defs generator_defs)

theorem slots_not_ascending_counterexample:
  "\<not> sorted (map time (fst (generateTimeSlots None None (ex_db [ex_afternoon, ex_morning])
        (Some ''p2'') ex_now (Some ex_doctor) 20766 [])))"
  by (simp add: ex_unordered)

theorem slots_walk_end_exclusive_witness:
  "start_time ex_morning = 32400 \<and> end_time ex_morning = 36000
   \<and> (\<exists>d \<in> set (doctors (ex_db [ex_morning])). dr_id d = dr_id ex_doctor \<and> is_verified d)
   \<and> map time (forEach_schedule [34200] 20766 ex_now [] ex_morning) = [540, 570]
   \<and> map time (fst (generateTimeSlots None None (ex_db [ex_morning]) (Some ''p2'') ex_now
                      (Some ex_doctor) 20766 [])) = [540, 570]"
proof -
  have h: "start_time ex_morning = 32400 \<and> end_time ex_morning = 36000"
    by (simp add: ex_morning_def)
  have v: "\<exists>d \<in> set (doctors (ex_db [ex_morning])). dr_id d = dr_id ex_doctor \<and> is_verified d"
    by (simp add: ex_db_def ex_doctor_def)
  have f: "filter (\<lambda>s. schedules_select_policy (ex_db [ex_morning]) (Some ''p2'') s
                \<and> sc_doctor_id s = dr_id ex_doctor \<and> day_of_week s = getDay 20766
                \<and> sc_is_available s)
         (doctor_schedules (ex_db [ex_morning])) = [ex_morning]"
    by (simp add: ex_defs schedules_select_policy_def getDay_def)
  from slots_walk_end_exclusive [of ex_morning "[34200]" 20766 ex_now "[]"
      "ex_db [ex_morning]" "Some ''p2''" ex_doctor "[]"] h v f
  show ?thesis by blast
qed

theorem no_schedule_no_slots_witness:
  "getDay 20767 = 2
   \<and> generateTimeSlots None None (ex_db [ex_morning]) (Some ''p2'') ex_now (Some ex_doctor) 20767 [\<lparr>time = 1, available = True\<rparr>]
     = ([], None)"
  using no_schedule_no_slots [of "ex_db [ex_morning]" ex_doctor 2 20767 None None "Some ''p2''" ex_now "[\<lparr>time = 1, available = True\<rparr>]"]
  by (simp add: ex_defs getDay_def)

lemma ex_ordered:
  "generateTimeSlots_try None None (ex_db [ex_morning, ex_afternoon]) (Some ''p2'') ex_now ''d1'' 20766
   = Inr [\<lparr>time = 540, available = True\<rparr>, \<lparr>time = 570, available = True\<rparr>,
       \<lparr>time = 840, available = True\<rparr>, \<lparr>time = 870, available = True\<rparr>]"
  by (simp add: ex_defs generator_defs)

lemma ex_ordered_schedules:
  "select_schedules None (ex_db [ex_morning, ex_afternoon]) (Some ''p2'') ''d1'' (getDay 20766)
     = Inr [ex_morning, ex_afternoon]"
  by (simp add: ex_defs generator_defs)

theorem slots_ascending_when_entries_ordered_witness:
  "sorted_wrt (\<lambda>a b. end_time a \<le> start_time b) [ex_morning, ex_afternoon]
   \<and> sorted (map time [\<lparr>time = 540, available = True\<rparr>, \<lparr>time = 570, available = True\<rparr>,
       \<lparr>time = 840, available = True\<rparr>, \<lparr>time = 870, available = True\<rparr>])"
proof -
  have h3: "\<forall>s \<in> set [ex_morning, ex_afternoon]. end_time s \<le> 86400"
    by (simp add: ex_defs)
  have h4: "sorted_wrt (\<lambda>a b. end_time a \<le> start_time b) [ex_morning, ex_afternoon]"
    by (simp add: ex_defs)
  from slots_ascending_when_entries_ordered [OF ex_ordered_schedules ex_ordered h3] h4
  show ?thesis by blast
qed

section \<open>Directory, booking and status updates\<close>

lemmas booking_defs = handleBookAppointment_def insert_appointment_def
  appointments_insert_policy_def slot_taken_def initial_def

lemma ex_booked_store:
  "store ex_booked = \<lparr>profiles = ex_profiles, doctors = [ex_doctor],
      doctor_schedules = [ex_morning],
      appointments = [\<lparr>apt_id = ''a1'', patient_id = ''p1'', doctor_id = ''d1'',
         appointment_date = 20766, appointment_time = 34200, status = Pending,
         apt_notes = None, patient_notes = Some ''checkup'', doctor_notes = None,
         created_at = ex_now, updated_at = ex_now\<rparr>]\<rparr>"
  by (simp add: ex_booked_def booking_defs is_admin_def ex_db_def ex_profiles_def ex_doctor_def)

text \<open>
  Claim C1, evaluated where the code departs from it. Patient \<open>p1\<close> has booked doctor
  \<open>d1\<close> for 09:30 on day 20766 and the row is pending. The generator run by patient
  \<open>p2\<close> for that doctor and date marks 09:30 available: the row-level policy on
  \<^verbatim>\<open>appointments\<close> shows a patient only the rows where they are the patient, so the
  booked-times query of another patient comes back empty. Run by \<open>p1\<close> the same slot is
  unavailable, and the booking \<open>p2\<close> is offered fails on the uniqueness constraint.
\<close>

theorem booked_slot_offered_to_other_patient:
  "map (\<lambda>a. (patient_id a, doctor_id a, appointment_date a, appointment_time a, status a))
     (appointments (store ex_booked)) = [(''p1'', ''d1'', 20766, 34200, Pending)]
   \<and> generateTimeSlots None None (store ex_booked) (Some ''p2'') ex_now (Some ex_doctor) 20766 []
       = ([\<lparr>time = 540, available = True\<rparr>, \<lparr>time = 570, available = True\<rparr>], None)
   \<and> generateTimeSlots None None (store ex_booked) (Some ''p1'') ex_now (Some ex_doctor) 20766 []
       = ([\<lparr>time = 540, available = True\<rparr>, \<lparr>time = 570, available = False\<rparr>], None)
   \<and> handleBookAppointment None ''a2'' ex_now (store ex_booked) (Some ex_doctor) (Some 570)
        (Some ''p2'') 20766 ''''
       = (store ex_booked, Alert booking_failed_message)"
  by (simp add: ex_booked_store booking_defs) (simp add: ex_defs generator_defs)

lemma generated_slot_availability:
  assumes "generateTimeSlots_try fault1 fault2 db uid now did selectedDate = Inr slots"
      and "x \<in> set slots"
  shows "available x \<longleftrightarrow>
           \<not> (\<exists>a \<in> set (appointments db).
                 appointments_select_policy db uid a \<and> doctor_id a = did
                 \<and> appointment_date a = selectedDate
                 \<and> (status a = Pending \<or> status a = Confirmed)
                 \<and> appointment_time a = 60 * time x)
           \<and> \<not> (isSameDay selectedDate now \<and> parseISO_date_time selectedDate (time x) < now)"
proof -
  define b where "b = map appointment_time (filter (\<lambda>a. appointments_select_policy db uid a
        \<and> doctor_id a = did \<and> appointment_date a = selectedDate
        \<and> (status a = Pending \<or> status a = Confirmed)) (appointments db))"
  from assms(1) obtain schedules where
    "slots = concat (map (\<lambda>s. map (slot_at b selectedDate now) (spec_entry_times s)) schedules)"
    by (auto simp: generateTimeSlots_try_def select_schedules_def select_booked_def request_def
        Let_def foldl_forEach_schedule b_def split: option.splits sum.splits)
  with assms(2) obtain t where "x = slot_at b selectedDate now t" by auto
  then have "available x \<longleftrightarrow> \<not> (60 * time x \<in> set b)
      \<and> \<not> (isSameDay selectedDate now \<and> parseISO_date_time selectedDate (time x) < now)"
    by (simp add: slot_at_def)
  moreover have "60 * time x \<in> set b \<longleftrightarrow> (\<exists>a \<in> set (appointments db).
                 appointments_select_policy db uid a \<and> doctor_id a = did
                 \<and> appointment_date a = selectedDate
                 \<and> (status a = Pending \<or> status a = Confirmed)
                 \<and> appointment_time a = 60 * time x)"
    unfolding b_def by (simp add: image_iff) metis
  ultimately show ?thesis by simp
qed

text \<open>
  Claim C8. A successful fetch of the directory sets the list to exactly the doctors
  rows with \<open>is_verified\<close> and \<open>is_available\<close> both true, whoever asks; and whatever the
  outcome of the fetch and the search filter, a doctor with either flag false is never
  in the rendered list (a failed fetch leaves the initial empty list).
\<close>

theorem directory_lists_verified_available:
  "fetchDoctors None db uid listed
     = (filter (\<lambda>d. is_verified d \<and> is_available d) (doctors db), None)
   \<and> (\<forall>d \<in> set (filteredDoctors matchesSearch selectedSpecialization
                     (fst (fetchDoctors fault db uid []))).
         d \<in> set (doctors db) \<and> is_verified d \<and> is_available d)"
proof -
  have "filter (\<lambda>d. doctors_select_policy db uid d \<and> is_verified d \<and> is_available d) (doctors db)
        = filter (\<lambda>d. is_verified d \<and> is_available d) (doctors db)"
    by (rule filter_cong) (auto simp: doctors_select_policy_def)
  then show ?thesis
    by (auto simp: fetchDoctors_def select_directory_def request_def filteredDoctors_def
        split: option.splits)
qed

theorem directory_lists_verified_available_witness:
  "fetchDoctors None ex_directory (Some ''p1'') [] = ([ex_doctor], None)
   \<and> filteredDoctors (\<lambda>d. True) [] (fst (fetchDoctors None ex_directory (Some ''p1'') []))
       = [ex_doctor]"
  using directory_lists_verified_available [of ex_directory "Some ''p1''" "[]" "\<lambda>d. True" "[]" None]
  by (simp add: ex_directory_def ex_doctor_def filteredDoctors_def)




lemma status_frame_refl: "status_frame i st now db db"
  by (simp add: status_frame_def list_all2_same)

lemma update_status_frame:
  "update_status fault now db uid i st = Inr db' \<Longrightarrow> status_frame i st now db db'"
  by (auto simp: update_status_def request_def upd_row_def status_frame_def list_all2_map2
      list_all2_same split: option.splits)

text \<open>
  Claim C9. The doctor's confirm, cancel and complete (\<open>updateAppointmentStatus\<close>) and
  the patient's cancel (\<open>cancelAppointment\<close>) leave profiles, doctors and schedules as
  they are, keep the number and order of appointment rows, and change in an appointment
  row at most the status and the \<open>updated_at\<close> stamp, and only in rows with the targeted
  id: dates, times, patient, doctor and all notes are as before.
\<close>

theorem status_update_frame:
  "status_frame appointmentId st now db
     (fst (updateAppointmentStatus fault0 fault1 fault2 fault3 now db user appointmentId st shown))
   \<and> status_frame appointmentId Cancelled now db
     (fst (cancelAppointment fault4 fault5 now db user' answer appointmentId shown'))"
  by (auto simp: updateAppointmentStatus_def cancelAppointment_def status_frame_refl
      dest: update_status_frame split: sum.splits if_splits)

lemma update_status_Inr:
  "update_status fault now db uid i st = Inr db' \<Longrightarrow>
     db' = db\<lparr>appointments := map (upd_row db uid i st now) (appointments db)\<rparr>"
  by (auto simp: update_status_def request_def split: option.splits)

lemma upd_row_keys [simp]:
  "doctor_id (upd_row db uid i st now a) = doctor_id a"
  "appointment_date (upd_row db uid i st now a) = appointment_date a"
  "appointment_time (upd_row db uid i st now a) = appointment_time a"
  "apt_id (upd_row db uid i st now a) = apt_id a"
  "patient_id (upd_row db uid i st now a) = patient_id a"
  by (simp_all add: upd_row_def)

lemma book_store:
  "fst (handleBookAppointment fault new_id now db (Some d) (Some t) (Some u) selectedDate nt) = db'
   \<Longrightarrow> db' = db \<or> (\<exists>r. db' = db\<lparr>appointments := appointments db @ [r]\<rparr>
          \<and> apt_id r \<notin> set (map apt_id (appointments db))
          \<and> \<not> slot_taken (appointments db) (doctor_id r) (appointment_date r) (appointment_time r)
          \<and> status r = Pending)"
  by (auto simp: handleBookAppointment_def insert_appointment_def Let_def
      split: option.splits if_splits)

lemma cancel_store:
  "cancelAppointment f1 f2 now db user ans i shown = (db', sh', fb) \<Longrightarrow>
     db' = db \<or> db' = db\<lparr>appointments := map (upd_row db user i Cancelled now) (appointments db)\<rparr>"
  by (auto simp: cancelAppointment_def split: sum.splits if_splits dest!: update_status_Inr)

lemma press_store:
  "updateAppointmentStatus f0 f1 f2 f3 now db user i st shown = (db', sh', fb) \<Longrightarrow>
     db' = db \<or> db' = db\<lparr>appointments := map (upd_row db user i st now) (appointments db)\<rparr>"
  by (auto simp: updateAppointmentStatus_def split: sum.splits dest!: update_status_Inr)

text \<open>What one step can do to the tables.\<close>

lemma step_store:
  "store (step e s) = store s
   \<or> (\<exists>r. store (step e s) = (store s)\<lparr>appointments := appointments (store s) @ [r]\<rparr>
          \<and> apt_id r \<notin> set (map apt_id (appointments (store s)))
          \<and> \<not> slot_taken (appointments (store s)) (doctor_id r) (appointment_date r)
                (appointment_time r)
          \<and> status r = Pending)
   \<or> (\<exists>uid i st now. store (step e s)
          = (store s)\<lparr>appointments := map (upd_row (store s) uid i st now) (appointments (store s))\<rparr>)"
proof (cases e)
  case (Book u d sd t nt nid f now)
  then show ?thesis using book_store [OF refl, of f nid now "store s" d t u sd nt] by auto
next
  case (PatientLoad u f)
  then show ?thesis by simp
next
  case (PatientCancel u flt i ans f1 f2 rd now)
  obtain db' sh' fb where c: "cancelAppointment f1 f2 now (store s) (Some u) ans i
      (patient_screen s u) = (db', sh', fb)"
    by (cases "cancelAppointment f1 f2 now (store s) (Some u) ans i (patient_screen s u)") auto
  from cancel_store [OF c] have "db' = store s \<or> (\<exists>uid i st now. db'
          = (store s)\<lparr>appointments := map (upd_row (store s) uid i st now) (appointments (store s))\<rparr>)"
    by blast
  with PatientCancel c show ?thesis by auto
next
  case (DoctorLoad u f1 f2 f3 now)
  then show ?thesis by simp
next
  case (DoctorPress u i b f0 f1 f2 f3 rd now)
  obtain db' sh' fb where c: "updateAppointmentStatus f0 f1 f2 f3 now (store s) (Some u) i
      (button_status b) (doctor_screen s u) = (db', sh', fb)"
    by (cases "updateAppointmentStatus f0 f1 f2 f3 now (store s) (Some u) i
      (button_status b) (doctor_screen s u)") auto
  from press_store [OF c] have "db' = store s \<or> (\<exists>uid i st now. db'
          = (store s)\<lparr>appointments := map (upd_row (store s) uid i st now) (appointments (store s))\<rparr>)"
    by blast
  with DoctorPress c show ?thesis by auto
qed

lemma step_unique_slots:
  assumes "unique_slots (appointments (store s))"
  shows "unique_slots (appointments (store (step e s)))"
proof -
  have m: "map ((\<lambda>a. (doctor_id a, appointment_date a, appointment_time a)) \<circ> upd_row db uid i st now) xs
         = map (\<lambda>a. (doctor_id a, appointment_date a, appointment_time a)) xs" for db uid i st now xs
    by simp
  from step_store [of e s] show ?thesis
  proof (elim disjE exE conjE)
    assume "store (step e s) = store s"
    with assms show ?thesis by simp
  next
    fix r
    assume a: "store (step e s) = (store s)\<lparr>appointments := appointments (store s) @ [r]\<rparr>"
      and t: "\<not> slot_taken (appointments (store s)) (doctor_id r) (appointment_date r)
                (appointment_time r)"
    from t have "(doctor_id r, appointment_date r, appointment_time r)
        \<notin> set (map (\<lambda>a. (doctor_id a, appointment_date a, appointment_time a)) (appointments (store s)))"
      by (auto simp: slot_taken_def)
    with assms show ?thesis
      by (simp add: a unique_slots_def)
  next
    fix uid i st now
    assume "store (step e s)
          = (store s)\<lparr>appointments := map (upd_row (store s) uid i st now) (appointments (store s))\<rparr>"
    with assms show ?thesis
      by (simp add: unique_slots_def m)
  qed
qed

lemma run_unique_slots:
  "unique_slots (appointments (store s)) \<Longrightarrow> unique_slots (appointments (store (run es s)))"
  unfolding run_def
  by (induction es arbitrary: s) (simp_all add: step_unique_slots)

lemma unique_slots_at_most_one:
  assumes "unique_slots rows"
  shows "length (filter (\<lambda>a. doctor_id a = D \<and> appointment_date a = d \<and> appointment_time a = t) rows) \<le> 1"
proof -
  let ?key = "\<lambda>a. (doctor_id a, appointment_date a, appointment_time a)"
  have "length (filter (\<lambda>a. doctor_id a = D \<and> appointment_date a = d \<and> appointment_time a = t) rows)
      = length (filter (\<lambda>k. k = (D, d, t)) (map ?key rows))"
    by (simp add: filter_map o_def)
  also have "\<dots> = card ({k. k = (D, d, t)} \<inter> set (map ?key rows))"
    using assms unfolding unique_slots_def by (rule distinct_length_filter)
  also have "\<dots> \<le> card {(D, d, t)}"
    by (intro card_mono) auto
  finally show ?thesis by simp
qed

text \<open>
  Claim C2. Uniqueness of (doctor, date, time) is kept by every exposed operation, hence
  by every sequence of them: from tables that satisfy it, and in particular from an
  empty appointments table, no run reaches a state with two rows for one triple.
\<close>

theorem one_appointment_per_slot:
  "(unique_slots (appointments (store s)) \<longrightarrow>
      unique_slots (appointments (store (step e s)))
      \<and> length (filter (\<lambda>a. doctor_id a = D \<and> appointment_date a = d \<and> appointment_time a = t)
                 (appointments (store (run es s)))) \<le> 1)
   \<and> length (filter (\<lambda>a. doctor_id a = D \<and> appointment_date a = d \<and> appointment_time a = t)
                 (appointments (store (run es (initial (db\<lparr>appointments := []\<rparr>)))))) \<le> 1"
proof -
  have "unique_slots (appointments (store (initial (db\<lparr>appointments := []\<rparr>))))"
    by (simp add: initial_def unique_slots_def)
  then show ?thesis
    by (blast intro: step_unique_slots run_unique_slots unique_slots_at_most_one)
qed


theorem status_update_frame_witness:
  "map status (appointments (fst (updateAppointmentStatus None None None None ex_now
       (store ex_booked) (Some ''u-doc'') ''a1'' Confirmed []))) = [Confirmed]
   \<and> status_frame ''a1'' Confirmed ex_now (store ex_booked)
       (fst (updateAppointmentStatus None None None None ex_now
               (store ex_booked) (Some ''u-doc'') ''a1'' Confirmed []))
   \<and> status_frame ''a1'' Cancelled ex_now (store ex_booked)
       (fst (cancelAppointment None None ex_now (store ex_booked) (Some ''p1'') True ''a1'' []))"
proof -
  have "map status (appointments (fst (updateAppointmentStatus None None None None ex_now
       (store ex_booked) (Some ''u-doc'') ''a1'' Confirmed []))) = [Confirmed]"
    by (simp add: ex_booked_store updateAppointmentStatus_def update_status_def request_def
        upd_row_def appointments_select_policy_def appointments_update_policy_def
        owns_doctor_def ex_doctor_def)
  with status_update_frame [where appointmentId = "''a1''" and st = Confirmed and now = ex_now
      and db = "store ex_booked" and user = "Some ''u-doc''" and shown = "[]"
      and user' = "Some ''p1''" and answer = True and shown' = "[]"
      and ?fault0.0 = None and ?fault1.0 = None and ?fault2.0 = None and ?fault3.0 = None
      and ?fault4.0 = None and ?fault5.0 = None]
  show ?thesis by simp
qed

theorem one_appointment_per_slot_witness:
  "unique_slots (appointments (store ex_booked))
   \<and> length (filter (\<lambda>a. doctor_id a = ''d1'' \<and> appointment_date a = 20766
                        \<and> appointment_time a = 34200)
        (appointments (store (run [Book ''p2'' ex_doctor 20766 570 [] ''a2'' None ex_now]
                                ex_booked)))) \<le> 1"
proof -
  have "unique_slots (appointments (store ex_booked))"
    by (simp add: ex_booked_store unique_slots_def)
  with one_appointment_per_slot [of ex_booked] show ?thesis by blast
qed

section \<open>Status transitions through the screens\<close>

lemmas screen_defs = fetchAppointments_def select_patient_appointments_def
  fetchDashboardData_def select_own_doctor_def select_upcoming_def select_all_of_doctor_def
  single_def updateAppointmentStatus_def cancelAppointment_def update_status_def upd_row_def
  button_offered_def cancel_offered_def filteredAppointments_def isPast_def
  appointmentDateTime_def request_def appointments_select_policy_def
  appointments_update_policy_def doctors_select_policy_def profiles_select_policy_def
  owns_doctor_def is_admin_def embed_profiles_def embed_doctors_def patient_card_renders_def
  dashboard_card_renders_def

lemmas clinic_defs = ex_clinic_def ex_visit_def ex_colleague_def ex_profiles_def ex_doctor_def
  ex_morning_def initial_def run_def

lemma ex_now_day: "ex_now div 86400000 = 20759"
  by (simp add: ex_now_def)

lemma ex_stale_state:
  "map status (appointments (store ex_stale)) = [Cancelled, Pending]
   \<and> map apt_id (appointments (store ex_stale)) = [''a1'', ''a2'']
   \<and> map (\<lambda>item. (apt_id (fst item), status (fst item), snd item \<noteq> None))
        (doctor_screen ex_stale ''u-doc'')
       = [(''a1'', Pending, True), (''a2'', Pending, True)]"
  by (simp add: ex_stale_def clinic_defs screen_defs ex_now_day)

lemma ex_current_state:
  "map status (appointments (store ex_current)) = [Cancelled, Pending]
   \<and> map apt_id (appointments (store ex_current)) = [''a1'', ''a2'']
   \<and> map (\<lambda>item. (apt_id (fst item), status (fst item), snd item \<noteq> None))
        (doctor_screen ex_current ''u-doc'')
       = [(''a1'', Cancelled, True), (''a2'', Pending, True)]"
  by (simp add: ex_current_def clinic_defs screen_defs ex_now_day)

text \<open>
  The claim as stated fails when the list is stale. In \<open>ex_stale\<close> the doctor has cancelled
  the 09:00 appointment, the fetch after the update failed, and the dashboard still shows
  the appointment as pending with its Confirm button: pressing it takes the stored row
  from cancelled to confirmed.
\<close>

theorem terminal_status_left_counterexample:
  "map status (appointments (store ex_stale)) = [Cancelled, Pending]
   \<and> map status (appointments (store
         (step (DoctorPress ''u-doc'' ''a1'' Confirm None None None None ex_now ex_now)
            ex_stale))) = [Confirmed, Pending]"
  by (simp add: ex_stale_def clinic_defs screen_defs ex_now_day)

lemma cancel_offered_shown:
  "cancel_offered flt rendered shown i \<Longrightarrow>
     \<exists>item \<in> set shown. apt_id (fst item) = i \<and> status (fst item) = Pending
        \<and> \<not> isPast (appointmentDateTime (fst item)) rendered"
proof -
  assume "cancel_offered flt rendered shown i"
  then obtain item where m: "item \<in> set (filteredAppointments flt rendered shown)"
    and p: "apt_id (fst item) = i" "status (fst item) = Pending"
      "\<not> isPast (appointmentDateTime (fst item)) rendered"
    unfolding cancel_offered_def by blast
  from m have "item \<in> set shown" by (simp add: filteredAppointments_def)
  with p show ?thesis by blast
qed

lemma button_offered_shown:
  "button_offered shown i b \<Longrightarrow>
     \<exists>item \<in> set shown. apt_id (fst item) = i
        \<and> status (fst item)
            = (case b of Confirm \<Rightarrow> Pending | Cancel \<Rightarrow> Pending | MarkComplete \<Rightarrow> Confirmed)"
  by (auto simp: button_offered_def split: button.splits)

lemma upd_row_other: "apt_id a \<noteq> i \<Longrightarrow> upd_row db uid i st now a = a"
  by (simp add: upd_row_def)

text \<open>
  An update reaches only rows of the pressed id; when a screen in step with the tables
  shows a row of that id as not terminal, no stored row of that id is terminal.
\<close>

lemma terminal_kept_by_update:
  assumes cur: "screen_current shown db"
      and v: "v \<in> set shown" "apt_id v = i" "status v \<noteq> Cancelled" "status v \<noteq> Completed"
      and k: "k < length (appointments db)"
      and t: "status (appointments db ! k) \<in> {Cancelled, Completed}"
  shows "map (upd_row db uid i st now) (appointments db) ! k = appointments db ! k"
proof -
  have "appointments db ! k \<in> set (appointments db)" using k by simp
  with cur v t have "apt_id (appointments db ! k) \<noteq> i"
    unfolding screen_current_def by auto
  with k show ?thesis by (simp add: upd_row_other)
qed

lemma step_keeps_terminal:
  assumes cur: "screen_current (acting_screen e s) (store s)"
      and k: "k < length (appointments (store s))"
      and t: "status (appointments (store s) ! k) \<in> {Cancelled, Completed}"
  shows "k < length (appointments (store (step e s)))
       \<and> appointments (store (step e s)) ! k = appointments (store s) ! k"
proof (cases e)
  case (Book u d sd tm nt nid f now)
  have "store (step e s) = store s \<or> (\<exists>r. store (step e s)
          = (store s)\<lparr>appointments := appointments (store s) @ [r]\<rparr>)"
    unfolding Book
    by (auto simp: handleBookAppointment_def insert_appointment_def Let_def
        split: option.splits if_splits)
  with k show ?thesis by (auto simp: nth_append)
next
  case (PatientLoad u f)
  with k show ?thesis by simp
next
  case (DoctorLoad u f1 f2 f3 now)
  with k show ?thesis by simp
next
  case (PatientCancel u flt i ans f1 f2 rd now)
  show ?thesis
  proof (cases "rd \<le> now \<and> cancel_offered flt rd (patient_screen s u) i")
    case False
    with PatientCancel k show ?thesis by auto
  next
    case True
    then have off: "cancel_offered flt rd (patient_screen s u) i" by simp
    from cancel_offered_shown [OF off] obtain item where
      "item \<in> set (patient_screen s u)" "apt_id (fst item) = i" "status (fst item) = Pending"
      by blast
    then have v: "fst item \<in> set (map fst (patient_screen s u))" "apt_id (fst item) = i"
      "status (fst item) \<noteq> Cancelled" "status (fst item) \<noteq> Completed" by auto
    obtain db' sh' fb where c: "cancelAppointment f1 f2 now (store s) (Some u) ans i
        (patient_screen s u) = (db', sh', fb)"
      by (cases "cancelAppointment f1 f2 now (store s) (Some u) ans i (patient_screen s u)") auto
    have st: "store (step e s) = db'" using PatientCancel True c by simp
    from cur PatientCancel have cur': "screen_current (map fst (patient_screen s u)) (store s)"
      by simp
    from cancel_store [OF c] show ?thesis
    proof
      assume "db' = store s"
      with st k show ?thesis by simp
    next
      assume "db' = (store s)\<lparr>appointments :=
          map (upd_row (store s) (Some u) i Cancelled now) (appointments (store s))\<rparr>"
      with st k terminal_kept_by_update [OF cur' v k t, of "Some u" Cancelled now]
      show ?thesis by simp
    qed
  qed
next
  case (DoctorPress u i b f0 f1 f2 f3 rd now)
  show ?thesis
  proof (cases "rd \<le> now \<and> button_offered (doctor_screen s u) i b")
    case False
    with DoctorPress k show ?thesis by auto
  next
    case True
    then have off: "button_offered (doctor_screen s u) i b" by simp
    from button_offered_shown [OF off] obtain item where
      "item \<in> set (doctor_screen s u)" "apt_id (fst item) = i"
      "status (fst item) \<noteq> Cancelled" "status (fst item) \<noteq> Completed"
      by (cases b) auto
    then have v: "fst item \<in> set (map fst (doctor_screen s u))" "apt_id (fst item) = i"
      "status (fst item) \<noteq> Cancelled" "status (fst item) \<noteq> Completed" by auto
    obtain db' sh' fb where c: "updateAppointmentStatus f0 f1 f2 f3 now (store s) (Some u) i
        (button_status b) (doctor_screen s u) = (db', sh', fb)"
      by (cases "updateAppointmentStatus f0 f1 f2 f3 now (store s) (Some u) i
        (button_status b) (doctor_screen s u)") auto
    have st: "store (step e s) = db'" using DoctorPress True c by simp
    from cur DoctorPress have cur': "screen_current (map fst (doctor_screen s u)) (store s)"
      by simp
    from press_store [OF c] show ?thesis
    proof
      assume "db' = store s"
      with st k show ?thesis by simp
    next
      assume "db' = (store s)\<lparr>appointments :=
          map (upd_row (store s) (Some u) i (button_status b) now) (appointments (store s))\<rparr>"
      with st k terminal_kept_by_update [OF cur' v k t, of "Some u" "button_status b" now]
      show ?thesis by simp
    qed
  qed
qed

text \<open>
  Claim C4, as amended. The patient's Cancel is rendered only on a card whose shown
  status is pending, the doctor's Confirm and Cancel only on shown pending, Mark Complete
  only on shown confirmed, and without the button the action does nothing. The update
  names the row by id and does not look at the stored status. So: under any exposed
  operation whose actor's list agrees in status with the stored rows, every row stored
  as cancelled or completed stays exactly as it is.
\<close>

theorem terminal_status_kept_when_screen_current:
  "(cancel_offered flt rendered shown appointmentId \<longrightarrow>
      (\<exists>item \<in> set shown. apt_id (fst item) = appointmentId \<and> status (fst item) = Pending))
   \<and> (button_offered shown' appointmentId b \<longrightarrow>
      (\<exists>item \<in> set shown'. apt_id (fst item) = appointmentId
          \<and> status (fst item) = (case b of Confirm \<Rightarrow> Pending | Cancel \<Rightarrow> Pending
                                  | MarkComplete \<Rightarrow> Confirmed)))
   \<and> (\<not> cancel_offered flt rendered (patient_screen s user) appointmentId \<longrightarrow>
        step (PatientCancel user flt appointmentId answer fault1 fault2 rendered now) s = s)
   \<and> (\<not> button_offered (doctor_screen s user) appointmentId b \<longrightarrow>
        step (DoctorPress user appointmentId b fault0 fault1 fault2 fault3 rendered now) s = s)
   \<and> (screen_current (acting_screen e s) (store s) \<longrightarrow>
        (\<forall>k < length (appointments (store s)).
           status (appointments (store s) ! k) \<in> {Cancelled, Completed} \<longrightarrow>
           k < length (appointments (store (step e s)))
           \<and> appointments (store (step e s)) ! k = appointments (store s) ! k))"
proof (intro conjI impI allI)
  assume "cancel_offered flt rendered shown appointmentId"
  from cancel_offered_shown [OF this]
  show "\<exists>item \<in> set shown. apt_id (fst item) = appointmentId \<and> status (fst item) = Pending"
    by blast
next
  assume "button_offered shown' appointmentId b"
  from button_offered_shown [OF this]
  show "\<exists>item \<in> set shown'. apt_id (fst item) = appointmentId
          \<and> status (fst item) = (case b of Confirm \<Rightarrow> Pending | Cancel \<Rightarrow> Pending
                                  | MarkComplete \<Rightarrow> Confirmed)" .
next
  assume "\<not> cancel_offered flt rendered (patient_screen s user) appointmentId"
  then show "step (PatientCancel user flt appointmentId answer fault1 fault2 rendered now) s = s"
    by simp
next
  assume "\<not> button_offered (doctor_screen s user) appointmentId b"
  then show "step (DoctorPress user appointmentId b fault0 fault1 fault2 fault3 rendered now) s = s"
    by simp
next
  fix k
  assume "screen_current (acting_screen e s) (store s)" "k < length (appointments (store s))"
    "status (appointments (store s) ! k) \<in> {Cancelled, Completed}"
  from step_keeps_terminal [OF this]
  show "k < length (appointments (store (step e s)))"
    and "appointments (store (step e s)) ! k = appointments (store s) ! k" by blast+
qed

lemma map_singleton_nth: "map f xs = [y] \<Longrightarrow> f (xs ! 0) = y \<and> 0 < length xs"
  by (cases xs) auto

lemma ex_listed_state:
  "store ex_listed = store ex_booked
   \<and> map fst (patient_screen ex_listed ''p1'') = appointments (store ex_booked)
   \<and> list_all patient_card_renders (patient_screen ex_listed ''p1'')"
  by (simp add: ex_listed_def ex_booked_store screen_defs ex_doctor_def ex_profiles_def)

lemma ex_listed_offered:
  "cancel_offered All ex_now (patient_screen ex_listed ''p1'') ''a1''"
proof -
  from ex_listed_state obtain item where
    i: "patient_screen ex_listed ''p1'' = [item]" "patient_card_renders item"
       "fst item = hd (appointments (store ex_booked))"
    by (auto simp: ex_booked_store map_eq_Cons_conv)
  show ?thesis
    by (simp add: cancel_offered_def filteredAppointments_def i ex_booked_store isPast_def
        appointmentDateTime_def ex_now_def)
qed

theorem terminal_status_kept_when_screen_current_witness:
  "cancel_offered All ex_now (patient_screen ex_listed ''p1'') ''a1''
   \<and> (\<exists>item \<in> set (patient_screen ex_listed ''p1'').
         apt_id (fst item) = ''a1'' \<and> status (fst item) = Pending)
   \<and> button_offered (doctor_screen ex_current ''u-doc'') ''a2'' Confirm
   \<and> screen_current (map fst (doctor_screen ex_current ''u-doc'')) (store ex_current)
   \<and> map status (appointments (store ex_current)) = [Cancelled, Pending]
   \<and> map status (appointments (store
         (step (DoctorPress ''u-doc'' ''a2'' Confirm None None None None ex_now ex_now)
            ex_current))) = [Cancelled, Confirmed]
   \<and> appointments (store
         (step (DoctorPress ''u-doc'' ''a2'' Confirm None None None None ex_now ex_now)
            ex_current)) ! 0
       = appointments (store ex_current) ! 0
   \<and> \<not> button_offered (doctor_screen ex_current ''u-doc'') ''a1'' Confirm
   \<and> step (DoctorPress ''u-doc'' ''a1'' Confirm None None None None ex_now ex_now) ex_current
       = ex_current"
proof -
  let ?e = "DoctorPress ''u-doc'' ''a2'' Confirm None None None None ex_now ex_now"
  from ex_current_state obtain a1 a2 v1 v2 where
    a: "appointments (store ex_current) = [a1, a2]" "status a1 = Cancelled" "status a2 = Pending"
       "apt_id a1 = ''a1''" "apt_id a2 = ''a2''"
    and v: "doctor_screen ex_current ''u-doc'' = [v1, v2]" "apt_id (fst v1) = ''a1''"
       "status (fst v1) = Cancelled" "snd v1 \<noteq> None" "apt_id (fst v2) = ''a2''"
       "status (fst v2) = Pending" "snd v2 \<noteq> None"
    by (auto simp: map_eq_Cons_conv)
  have off: "button_offered (doctor_screen ex_current ''u-doc'') ''a2'' Confirm"
    using v by (auto simp: button_offered_def dashboard_card_renders_def)
  have noff: "\<not> button_offered (doctor_screen ex_current ''u-doc'') ''a1'' Confirm"
    using v by (auto simp: button_offered_def dashboard_card_renders_def)
  have c: "screen_current (acting_screen ?e ex_current) (store ex_current)"
    by (auto simp: screen_current_def a v)
  have t: "status (appointments (store ex_current) ! 0) \<in> {Cancelled, Completed}"
    by (simp add: a)
  have k: "0 < length (appointments (store ex_current))" by (simp add: a)
  have after: "map status (appointments (store (step ?e ex_current))) = [Cancelled, Confirmed]"
    by (simp add: ex_current_def clinic_defs screen_defs ex_now_day)
  note thm1 = terminal_status_kept_when_screen_current
    [where s = ex_current and user = "''u-doc''" and appointmentId = "''a2''" and b = Confirm
       and shown' = "doctor_screen ex_current ''u-doc''" and e = ?e]
  note thm2 = terminal_status_kept_when_screen_current
    [where s = ex_current and user = "''u-doc''" and appointmentId = "''a1''" and b = Confirm
       and flt = All and rendered = ex_now and now = ex_now
       and shown = "patient_screen ex_listed ''p1''"
       and ?fault0.0 = None and ?fault1.0 = None and ?fault2.0 = None and ?fault3.0 = None]
  from thm1 c t k have kept: "appointments (store (step ?e ex_current)) ! 0
       = appointments (store ex_current) ! 0" by blast
  from thm2 ex_listed_offered noff have
    "(\<exists>item \<in> set (patient_screen ex_listed ''p1'').
         apt_id (fst item) = ''a1'' \<and> status (fst item) = Pending)
     \<and> step (DoctorPress ''u-doc'' ''a1'' Confirm None None None None ex_now ex_now) ex_current
       = ex_current" by blast
  with ex_listed_offered off noff c after kept ex_current_state show ?thesis by simp
qed

subsection \<open>The patient's cancel and the clock\<close>

lemma fetchAppointments_subset:
  "fst ` set (fetchAppointments f db user shown) \<subseteq> fst ` set shown \<union> set (appointments db)"
  by (auto simp: fetchAppointments_def select_patient_appointments_def request_def
      split: option.splits)

lemma cancel_shown_subset:
  "cancelAppointment f1 f2 now db user ans i shown = (db', sh', fb) \<Longrightarrow>
     fst ` set sh' \<subseteq> fst ` set shown \<union> set (appointments db')"
proof -
  assume c: "cancelAppointment f1 f2 now db user ans i shown = (db', sh', fb)"
  then have "sh' = shown \<or> sh' = fetchAppointments f2 db' user shown"
    by (auto simp: cancelAppointment_def split: if_splits sum.splits)
  with fetchAppointments_subset [of f2 db' user shown] show ?thesis by auto
qed

lemma step_patient_screen:
  "fst ` set (patient_screen (step e s) u)
     \<subseteq> fst ` set (patient_screen s u) \<union> set (appointments (store (step e s)))"
proof (cases e)
  case (PatientLoad u' f)
  then show ?thesis using fetchAppointments_subset [of f "store s" "Some u'" "patient_screen s u'"]
    by auto
next
  case (PatientCancel u' flt i ans f1 f2 rd now)
  obtain db' sh' fb where c: "cancelAppointment f1 f2 now (store s) (Some u') ans i
      (patient_screen s u') = (db', sh', fb)"
    by (cases "cancelAppointment f1 f2 now (store s) (Some u') ans i (patient_screen s u')") auto
  from cancel_shown_subset [OF c] PatientCancel c show ?thesis by auto
next
  case (DoctorPress u' i b f0 f1 f2 f3 rd now)
  then show ?thesis by (auto split: prod.splits)
qed auto

lemma step_rows_kept:
  assumes "a \<in> set (appointments (store s))"
  shows "\<exists>a' \<in> set (appointments (store (step e s))).
           apt_id a' = apt_id a \<and> appointment_date a' = appointment_date a
           \<and> appointment_time a' = appointment_time a"
  using step_store [of e s]
proof (elim disjE exE conjE)
  assume "store (step e s) = store s"
  with assms show ?thesis by auto
next
  fix r assume "store (step e s) = (store s)\<lparr>appointments := appointments (store s) @ [r]\<rparr>"
  with assms show ?thesis by auto
next
  fix uid i st now
  assume "store (step e s)
          = (store s)\<lparr>appointments := map (upd_row (store s) uid i st now) (appointments (store s))\<rparr>"
  with assms show ?thesis
    by (intro bexI [of _ "upd_row (store s) uid i st now a"]) simp_all
qed

lemma step_distinct_ids:
  assumes "distinct (map apt_id (appointments (store s)))"
  shows "distinct (map apt_id (appointments (store (step e s))))"
proof -
  have m: "map (apt_id \<circ> upd_row db uid i st now) xs = map apt_id xs" for db uid i st now xs
    by simp
  from step_store [of e s] assms show ?thesis
    by (auto simp: m)
qed

lemma step_faithful:
  assumes "screens_faithful s"
  shows "screens_faithful (step e s)"
  unfolding screens_faithful_def
proof (intro conjI allI ballI)
  show "distinct (map apt_id (appointments (store (step e s))))"
    using assms by (simp add: screens_faithful_def step_distinct_ids)
next
  fix u v assume "v \<in> set (map fst (patient_screen (step e s) u))"
  with step_patient_screen [of e s u]
  have "v \<in> set (map fst (patient_screen s u)) \<or> v \<in> set (appointments (store (step e s)))"
    by auto
  then show "\<exists>a \<in> set (appointments (store (step e s))).
             apt_id a = apt_id v \<and> appointment_date a = appointment_date v
             \<and> appointment_time a = appointment_time v"
  proof
    assume "v \<in> set (map fst (patient_screen s u))"
    with assms obtain a where "a \<in> set (appointments (store s))" "apt_id a = apt_id v"
      "appointment_date a = appointment_date v" "appointment_time a = appointment_time v"
      unfolding screens_faithful_def by blast
    with step_rows_kept [of a s e] show ?thesis by auto
  next
    assume "v \<in> set (appointments (store (step e s)))"
    then show ?thesis by auto
  qed
qed

lemma run_faithful: "screens_faithful s \<Longrightarrow> screens_faithful (run es s)"
  unfolding run_def by (induction es arbitrary: s) (simp_all add: step_faithful)

lemma initial_faithful:
  "distinct (map apt_id (appointments db)) \<Longrightarrow> screens_faithful (initial db)"
  by (simp add: screens_faithful_def initial_def)

lemma cancel_changes_only_future:
  assumes f: "screens_faithful s"
      and k: "k < length (appointments (store s))"
      and ch: "appointments (store (step (PatientCancel u flt i ans f1 f2 rd now) s)) ! k
                 \<noteq> appointments (store s) ! k"
  shows "rd \<le> now \<and> \<not> isPast (appointmentDateTime (appointments (store s) ! k)) rd"
proof -
  let ?a = "appointments (store s) ! k"
  have g: "rd \<le> now \<and> cancel_offered flt rd (patient_screen s u) i"
    using ch by (cases "rd \<le> now \<and> cancel_offered flt rd (patient_screen s u) i") auto
  then have off: "cancel_offered flt rd (patient_screen s u) i" by simp
  from cancel_offered_shown [OF off] obtain item where
    "item \<in> set (patient_screen s u)" "apt_id (fst item) = i"
    "\<not> isPast (appointmentDateTime (fst item)) rd"
    by blast
  then obtain v where
    v: "v \<in> set (map fst (patient_screen s u))" "apt_id v = i"
       "\<not> isPast (appointmentDateTime v) rd"
    by auto
  obtain db' sh' fb where c: "cancelAppointment f1 f2 now (store s) (Some u) ans i
      (patient_screen s u) = (db', sh', fb)"
    by (cases "cancelAppointment f1 f2 now (store s) (Some u) ans i (patient_screen s u)") auto
  have st: "store (step (PatientCancel u flt i ans f1 f2 rd now) s) = db'" using g c by simp
  from cancel_store [OF c] ch st k have
    "upd_row (store s) (Some u) i Cancelled now ?a \<noteq> ?a" by auto
  then have id: "apt_id ?a = i" by (auto simp: upd_row_def split: if_splits)
  from f v(1) obtain a0 where a0: "a0 \<in> set (appointments (store s))" "apt_id a0 = apt_id v"
    "appointment_date a0 = appointment_date v" "appointment_time a0 = appointment_time v"
    unfolding screens_faithful_def by blast
  have "inj_on apt_id (set (appointments (store s)))"
    using f unfolding screens_faithful_def by (simp add: distinct_map)
  moreover have "?a \<in> set (appointments (store s))" using k by simp
  ultimately have "a0 = ?a" using a0(1,2) v(2) id by (auto dest: inj_onD)
  with a0 have "appointmentDateTime ?a = appointmentDateTime v"
    by (simp add: appointmentDateTime_def)
  with v(3) g show ?thesis by simp
qed

lemma ex_listed_late_cancel:
  "ex_now \<le> ex_late
   \<and> map (\<lambda>a. (apt_id a, status a, isPast (appointmentDateTime a) ex_late))
        (appointments (store ex_listed)) = [(''a1'', Pending, True)]
   \<and> map (\<lambda>a. (apt_id a, status a))
        (appointments (store
           (step (PatientCancel ''p1'' All ''a1'' True None None ex_now ex_late) ex_listed)))
       = [(''a1'', Cancelled)]"
proof -
  have l: "ex_now \<le> ex_late" by (simp add: ex_now_def ex_late_def)
  have b: "map (\<lambda>a. (apt_id a, status a, isPast (appointmentDateTime a) ex_late))
        (appointments (store ex_listed)) = [(''a1'', Pending, True)]"
    by (simp add: ex_listed_state ex_booked_store isPast_def appointmentDateTime_def ex_late_def)
  have "store (step (PatientCancel ''p1'' All ''a1'' True None None ex_now ex_late) ex_listed)
      = fst (cancelAppointment None None ex_late (store ex_listed) (Some ''p1'') True ''a1''
               (patient_screen ex_listed ''p1''))"
    using ex_listed_offered l by (simp add: split_beta)
  then have "map (\<lambda>a. (apt_id a, status a))
        (appointments (store
           (step (PatientCancel ''p1'' All ''a1'' True None None ex_now ex_late) ex_listed)))
       = [(''a1'', Cancelled)]"
    by (simp add: ex_listed_state ex_booked_store cancelAppointment_def update_status_def
        request_def upd_row_def appointments_select_policy_def appointments_update_policy_def)
  with l b show ?thesis by simp
qed

text \<open>
  The claim as stated fails when time passes between rendering and the press. In
  \<open>ex_listed\<close> the list of \<open>p1\<close>, rendered at \<open>ex_now\<close>, carries the Cancel button of the
  pending 09:30 appointment; pressed at \<open>ex_late\<close>, when the appointment is past, the
  handler sends the update all the same and the stored row becomes cancelled.
\<close>

theorem patient_cancels_past_counterexample:
  "cancel_offered All ex_now (patient_screen ex_listed ''p1'') ''a1''
   \<and> ex_now \<le> ex_late
   \<and> map (\<lambda>a. (apt_id a, status a, isPast (appointmentDateTime a) ex_late))
        (appointments (store ex_listed)) = [(''a1'', Pending, True)]
   \<and> map (\<lambda>a. (apt_id a, status a))
        (appointments (store
           (step (PatientCancel ''p1'' All ''a1'' True None None ex_now ex_late) ex_listed)))
       = [(''a1'', Cancelled)]"
  using ex_listed_offered ex_listed_late_cancel by (simp del: step.simps)

text \<open>
  Claim C10, as amended. The patient's Cancel button is rendered only for a shown
  appointment that is pending and whose date and time are not before the instant of
  rendering. The handler does not look at the clock again. So, in every state reached
  from tables with unique ids, a patient's cancel changes no stored appointment whose
  date and time were already past when the pressed button was rendered; in particular
  none that is past at the press when rendering and press coincide.
\<close>

theorem patient_cancel_not_past_at_render:
  "(cancel_offered flt rendered shown appointmentId \<longrightarrow>
      (\<exists>item \<in> set shown. apt_id (fst item) = appointmentId \<and> status (fst item) = Pending
          \<and> \<not> isPast (appointmentDateTime (fst item)) rendered))
   \<and> (distinct (map apt_id (appointments db)) \<longrightarrow>
        (\<forall>k < length (appointments (store (run es (initial db)))).
           appointments (store (step (PatientCancel user flt appointmentId answer fault1 fault2
                                        rendered now)
                                  (run es (initial db)))) ! k
             \<noteq> appointments (store (run es (initial db))) ! k
           \<longrightarrow> rendered \<le> now
               \<and> \<not> isPast (appointmentDateTime (appointments (store (run es (initial db))) ! k))
                     rendered
               \<and> (rendered = now \<longrightarrow>
                    \<not> isPast (appointmentDateTime (appointments (store (run es (initial db))) ! k))
                        now)))"
  using cancel_offered_shown [of flt rendered shown appointmentId]
    cancel_changes_only_future [OF run_faithful [OF initial_faithful]]
  by blast

theorem patient_cancel_not_past_at_render_witness:
  "cancel_offered All ex_now (patient_screen ex_listed ''p1'') ''a1''
   \<and> \<not> cancel_offered All ex_late (patient_screen ex_listed ''p1'') ''a1''
   \<and> (\<exists>item \<in> set (patient_screen ex_listed ''p1''). apt_id (fst item) = ''a1''
          \<and> status (fst item) = Pending
          \<and> \<not> isPast (appointmentDateTime (fst item)) ex_now)
   \<and> distinct (map apt_id (appointments (ex_db [ex_morning])))
   \<and> appointments (store (step (PatientCancel ''p1'' All ''a1'' True None None ex_now ex_late)
                             ex_listed)) ! 0
        \<noteq> appointments (store ex_listed) ! 0
   \<and> \<not> isPast (appointmentDateTime (appointments (store ex_listed) ! 0)) ex_now"
proof -
  let ?e = "PatientCancel ''p1'' All ''a1'' True None None ex_now ex_late"
  have g: "\<not> cancel_offered All ex_late (patient_screen ex_listed ''p1'') ''a1''"
  proof -
    from ex_listed_state obtain item where
      i: "patient_screen ex_listed ''p1'' = [item]"
         "fst item = hd (appointments (store ex_booked))"
      by (auto simp: ex_booked_store map_eq_Cons_conv)
    show ?thesis
      by (simp add: cancel_offered_def filteredAppointments_def i ex_booked_store isPast_def
          appointmentDateTime_def ex_late_def)
  qed
  have d: "distinct (map apt_id (appointments (ex_db [ex_morning])))"
    by (simp add: ex_db_def)
  have r: "run [Book ''p1'' ex_doctor 20766 570 ''checkup'' ''a1'' None ex_now,
                PatientLoad ''p1'' None] (initial (ex_db [ex_morning])) = ex_listed"
    by (simp add: run_def ex_listed_def ex_booked_def)
  have b: "map status (appointments (store ex_listed)) = [Pending]"
    using conjunct1 [OF conjunct2 [OF ex_listed_late_cancel]]
    by (auto simp: map_eq_Cons_conv)
  have a: "map status (appointments (store (step ?e ex_listed))) = [Cancelled]"
    using conjunct2 [OF conjunct2 [OF ex_listed_late_cancel]]
    by (auto simp: map_eq_Cons_conv simp del: step.simps)
  note before = map_singleton_nth [OF b]
  note after = map_singleton_nth [OF a]
  have k: "0 < length (appointments (store ex_listed))"
    using before by (rule conjunct2)
  have "status (appointments (store (step ?e ex_listed)) ! 0)
          \<noteq> status (appointments (store ex_listed) ! 0)"
    by (simp only: conjunct1 [OF before] conjunct1 [OF after]) simp
  then have c: "appointments (store (step ?e ex_listed)) ! 0
                  \<noteq> appointments (store ex_listed) ! 0"
    by (auto simp del: step.simps)
  from patient_cancel_not_past_at_render [where flt = All and rendered = ex_now
      and now = ex_late and shown = "patient_screen ex_listed ''p1''"
      and appointmentId = "''a1''" and db = "ex_db [ex_morning]"
      and es = "[Book ''p1'' ex_doctor 20766 570 ''checkup'' ''a1'' None ex_now,
                PatientLoad ''p1'' None]"
      and user = "''p1''" and answer = True and ?fault1.0 = None and ?fault2.0 = None]
    ex_listed_offered g d k c
  show ?thesis unfolding r by blast
qed

end
